theory Spec2Isabelle
  imports Complex_Main "HOL-Library.AList"
begin

section \<open>Values, engine calls and the call monad\<close>

text \<open>
  The adapter class \<open>Bullet\<close> (\<open>pyrobolearn/simulators/bullet.py\<close>) forwards every
  operation to the engine client \<open>self.sim\<close>. Python values that cross the boundary
  are modelled by \<open>pyval\<close>: \<open>PSeq\<close> is a list or a tuple, \<open>PArr\<close> a (possibly
  nested) \<open>numpy.ndarray\<close>, \<open>PQuat w x y z\<close> a \<open>quaternion.quaternion\<close>. Floats
  are modelled by exact reals.
\<close>

datatype pyval =
    PNone
  | PBool bool
  | PInt int
  | PFloat real
  | PStr string
  | PSeq "pyval list"
  | PArr "pyval list"
  | PQuat real real real real

text \<open>
  Exceptions. \<open>ValueError\<close>, \<open>TypeError\<close> and \<open>IndexError\<close> are raised by the
  adapter's own Python code; \<open>EngineError\<close> is whatever the engine client raised.
\<close>

datatype error =
    ValueError string
  | TypeError string
  | IndexError string
  | EngineError string

text \<open>
  One call into the engine client: method name, positional arguments, keyword arguments
  (a dict, kept as an association list in insertion order).
\<close>

datatype call = Call (call_name: string) (args: "pyval list") (kwargs: "(string \<times> pyval) list")

text \<open>
  The engine is external. It is a parameter of the model: a deterministic engine answers a
  call depending on the calls it has received so far (its state is its history), either
  with a value or by raising (\<open>Inl\<close> of the message).
\<close>

type_synonym trace = "call list"
type_synonym engine = "trace \<Rightarrow> call \<Rightarrow> string + pyval"

text \<open>
  An adapter operation runs on the trace of calls issued so far and gives back its result
  (a value, or the exception that ended it) and the extended trace.
\<close>

type_synonym 'a m = "trace \<Rightarrow> (error + 'a) \<times> trace"

definition ret :: "'a \<Rightarrow> 'a m" where
  "ret v = (\<lambda>tr. (Inr v, tr))"

definition raise :: "error \<Rightarrow> 'a m" where
  "raise e = (\<lambda>tr. (Inl e, tr))"

definition bnd :: "'a m \<Rightarrow> ('a \<Rightarrow> 'b m) \<Rightarrow> 'b m" where
  "bnd f g = (\<lambda>tr. case f tr of (Inl e, tr') \<Rightarrow> (Inl e, tr') | (Inr v, tr') \<Rightarrow> g v tr')"

text \<open>\<open>self.sim.method(*args, **kwargs)\<close>: one engine call, appended to the trace.\<close>

definition sim :: "engine \<Rightarrow> call \<Rightarrow> pyval m" where
  "sim eng c = (\<lambda>tr. (case eng tr c of Inl msg \<Rightarrow> Inl (EngineError msg) | Inr v \<Rightarrow> Inr v, tr @ [c]))"

text \<open>The calls an operation issued when started on trace \<open>tr\<close>.\<close>

definition issued :: "'a m \<Rightarrow> trace \<Rightarrow> call list" where
  "issued f tr = drop (length tr) (snd (f tr))"

definition result :: "'a m \<Rightarrow> trace \<Rightarrow> error + 'a" where
  "result f tr = fst (f tr)"

text \<open>A pure step that may raise, run inside an operation.\<close>

definition lift :: "error + 'a \<Rightarrow> 'a m" where
  "lift r = (\<lambda>tr. (r, tr))"


section \<open>Python and numpy operations on values\<close>

text \<open>\<open>xs[i]\<close>: negative indices count from the end, out of range raises.\<close>

definition seq_index :: "pyval list \<Rightarrow> int \<Rightarrow> error + pyval" where
  "seq_index xs i =
     (let n = int (length xs); j = (if i < 0 then n + i else i)
      in if 0 \<le> j \<and> j < n then Inr (xs ! nat j) else Inl (IndexError ''index out of range''))"

fun py_index :: "pyval \<Rightarrow> int \<Rightarrow> error + pyval" where
  "py_index (PSeq xs) i = seq_index xs i"
| "py_index (PArr xs) i = seq_index xs i"
| "py_index (PStr s) i = seq_index (map (\<lambda>c. PStr [c]) s) i"
| "py_index v i = Inl (TypeError ''object is not subscriptable'')"

text \<open>Iterating a value (\<open>for x in v\<close>, a comprehension).\<close>

fun py_iter :: "pyval \<Rightarrow> error + pyval list" where
  "py_iter (PSeq xs) = Inr xs"
| "py_iter (PArr xs) = Inr xs"
| "py_iter (PStr s) = Inr (map (\<lambda>c. PStr [c]) s)"
| "py_iter v = Inl (TypeError ''object is not iterable'')"

fun mapM :: "('a \<Rightarrow> error + 'b) \<Rightarrow> 'a list \<Rightarrow> error + 'b list" where
  "mapM f [] = Inr []"
| "mapM f (x # xs) =
     (case f x of Inl e \<Rightarrow> Inl e
      | Inr v \<Rightarrow> (case mapM f xs of Inl e \<Rightarrow> Inl e | Inr vs \<Rightarrow> Inr (v # vs)))"

text \<open>Tuple unpacking \<open>a, b = v\<close> and the twelve-fold one of \<open>get_debug_visualizer\<close>.\<close>

definition unpack :: "nat \<Rightarrow> pyval \<Rightarrow> error + pyval list" where
  "unpack n v =
     (case py_iter v of Inl e \<Rightarrow> Inl e
      | Inr xs \<Rightarrow> if length xs = n then Inr xs else Inl (ValueError ''wrong number of values to unpack''))"

text \<open>
  \<open>np.array(v)\<close>: nested sequences become a nested array; a scalar stays the scalar
  (a zero-dimensional array is identified with its value).
\<close>

fun np_array :: "pyval \<Rightarrow> pyval" where
  "np_array (PSeq xs) = PArr (map np_array xs)"
| "np_array v = v"

text \<open>\<open>a.ravel()\<close>: the scalars of an array in row-major order.\<close>

fun ravel :: "pyval \<Rightarrow> pyval list" where
  "ravel (PArr xs) = concat (map ravel xs)"
| "ravel v = [v]"

text \<open>\<open>a.ravel().tolist()\<close>.\<close>

definition ravel_tolist :: "pyval \<Rightarrow> pyval" where
  "ravel_tolist a = PSeq (ravel a)"

text \<open>\<open>a.reshape(4, 4)\<close>: row-major; raises unless the array has 16 scalars.\<close>

definition reshape44 :: "pyval \<Rightarrow> error + pyval" where
  "reshape44 a =
     (let f = ravel a
      in if length f = 16
         then Inr (PArr [PArr (take 4 f), PArr (take 4 (drop 4 f)),
                         PArr (take 4 (drop 8 f)), PArr (take 4 (drop 12 f))])
         else Inl (ValueError ''cannot reshape array into shape (4,4)''))"

text \<open>\<open>a.T\<close>: the transpose of a two-dimensional array; any other value is itself.\<close>

fun is_arr :: "pyval \<Rightarrow> bool" where
  "is_arr (PArr xs) = True"
| "is_arr v = False"

fun elems :: "pyval \<Rightarrow> pyval list" where
  "elems (PArr xs) = xs"
| "elems (PSeq xs) = xs"
| "elems v = []"

definition np_T :: "pyval \<Rightarrow> pyval" where
  "np_T a =
     (case elems a of
        [] \<Rightarrow> a
      | r # rs \<Rightarrow>
          if is_arr a \<and> list_all (\<lambda>x. is_arr x \<and> length (elems x) = length (elems r)) (r # rs)
          then PArr (map (\<lambda>c. PArr (map (\<lambda>row. elems row ! c) (r # rs))) [0..<length (elems r)])
          else a)"

text \<open>\<open>np.rad2deg\<close> and \<open>np.deg2rad\<close> on a float, in exact arithmetic.\<close>

definition rad2deg :: "real \<Rightarrow> real" where
  "rad2deg x = x * 180 / pi"

definition deg2rad :: "real \<Rightarrow> real" where
  "deg2rad x = x * pi / 180"

text \<open>On a value of the engine: numbers are converted (elementwise in a sequence),
  anything else raises.\<close>

fun numeric :: "pyval \<Rightarrow> bool" where
  "numeric (PFloat r) = True"
| "numeric (PInt i) = True"
| "numeric (PBool b) = True"
| "numeric (PSeq xs) = list_all numeric xs"
| "numeric (PArr xs) = list_all numeric xs"
| "numeric v = False"

fun map_float :: "(real \<Rightarrow> real) \<Rightarrow> pyval \<Rightarrow> pyval" where
  "map_float f (PFloat r) = PFloat (f r)"
| "map_float f (PInt i) = PFloat (f (of_int i))"
| "map_float f (PBool b) = PFloat (f (if b then 1 else 0))"
| "map_float f (PSeq xs) = PArr (map (map_float f) xs)"
| "map_float f (PArr xs) = PArr (map (map_float f) xs)"
| "map_float f v = v"

definition np_deg2rad :: "pyval \<Rightarrow> error + pyval" where
  "np_deg2rad v = (if numeric v then Inr (map_float deg2rad v) else Inl (TypeError ''ufunc deg2rad not supported for the input types''))"



section \<open>Engine constants\<close>

text \<open>
  Constants of the engine client read through \<open>self.sim\<close>, with the values the
  docstrings of \<open>create_visual_shape\<close> and \<open>set_joint_motor_control\<close> give.
\<close>

definition GEOM_SPHERE :: int where "GEOM_SPHERE = 2"
definition GEOM_BOX :: int where "GEOM_BOX = 3"
definition GEOM_CYLINDER :: int where "GEOM_CYLINDER = 4"
definition GEOM_MESH :: int where "GEOM_MESH = 5"
definition GEOM_PLANE :: int where "GEOM_PLANE = 6"
definition GEOM_CAPSULE :: int where "GEOM_CAPSULE = 7"

definition VELOCITY_CONTROL :: int where "VELOCITY_CONTROL = 0"
definition TORQUE_CONTROL :: int where "TORQUE_CONTROL = 1"
definition POSITION_CONTROL :: int where "POSITION_CONTROL = 2"

section \<open>Lifecycle operations\<close>

definition reset :: "engine \<Rightarrow> pyval m" where
  "reset eng = bnd (sim eng (Call ''resetSimulation'' [] [])) (\<lambda>_. ret PNone)"

definition set_time_step :: "engine \<Rightarrow> real \<Rightarrow> pyval m" where
  "set_time_step eng time_step =
     bnd (sim eng (Call ''setTimeStep'' [] [(''timeStep'', PFloat time_step)])) (\<lambda>_. ret PNone)"

definition stop_logging :: "engine \<Rightarrow> int \<Rightarrow> pyval m" where
  "stop_logging eng logger_id =
     bnd (sim eng (Call ''stopStateLogging'' [PInt logger_id] [])) (\<lambda>_. ret PNone)"

text \<open>
  \<open>load(state)\<close>: \<open>isinstance(state, int)\<close> holds for an int and for a bool,
  \<open>isinstance(state, str)\<close> for a string; no \<open>else\<close> branch.
\<close>

fun isinstance_int :: "pyval \<Rightarrow> bool" where
  "isinstance_int (PInt i) = True"
| "isinstance_int (PBool b) = True"
| "isinstance_int v = False"

fun isinstance_str :: "pyval \<Rightarrow> bool" where
  "isinstance_str (PStr s) = True"
| "isinstance_str v = False"

definition load :: "engine \<Rightarrow> pyval \<Rightarrow> pyval m" where
  "load eng state =
     (if isinstance_int state then
        bnd (sim eng (Call ''restoreState'' [] [(''stateId'', state)])) (\<lambda>_. ret PNone)
      else if isinstance_str state then
        bnd (sim eng (Call ''restoreState'' [] [(''fileName'', state)])) (\<lambda>_. ret PNone)
      else ret PNone)"

section \<open>Structured setters: optional keyword accumulation\<close>

text \<open>
  The idiom \<open>if x is not None: kwargs[name] = x\<close>. An optional parameter is \<open>None\<close>
  when the caller left it at its default, \<open>Some v\<close> when supplied; \<open>conv\<close> gives the
  Python value stored (the value itself, or \<open>int(x)\<close> where the source converts).
  Parameters have the types of the docstrings.
\<close>

definition put :: "string \<Rightarrow> 'a option \<Rightarrow> ('a \<Rightarrow> pyval) \<Rightarrow> (string \<times> pyval) list \<Rightarrow> (string \<times> pyval) list" where
  "put name x conv kw = (case x of None \<Rightarrow> kw | Some v \<Rightarrow> AList.update name (conv v) kw)"

text \<open>\<open>int(b)\<close> on a bool.\<close>

definition int_of_bool :: "bool \<Rightarrow> pyval" where
  "int_of_bool b = PInt (if b then 1 else 0)"

text \<open>A vector of floats and a list of ints, as Python sequences.\<close>

definition vec :: "real list \<Rightarrow> pyval" where
  "vec xs = PSeq (map PFloat xs)"

definition ints :: "int list \<Rightarrow> pyval" where
  "ints xs = PSeq (map PInt xs)"

subsection \<open>\<open>set_physics_properties\<close>\<close>

definition set_physics_properties_kwargs ::
  "real option \<Rightarrow> int option \<Rightarrow> int option \<Rightarrow> real option \<Rightarrow> int option \<Rightarrow> int option \<Rightarrow>
   real option \<Rightarrow> int option \<Rightarrow> bool option \<Rightarrow> real option \<Rightarrow> real option \<Rightarrow> real option \<Rightarrow>
   real option \<Rightarrow> bool option \<Rightarrow> bool option \<Rightarrow> real option \<Rightarrow> (string \<times> pyval) list" where
  "set_physics_properties_kwargs time_step num_solver_iterations use_split_impulse
     split_impulse_penetration_threshold num_sub_steps collision_filter_mode
     contact_breaking_threshold max_num_cmd_per_1ms enable_file_caching
     restitution_velocity_threshold erp contact_erp friction_erp enable_cone_friction
     deterministic_overlapping_pairs solver_residual_threshold =
    (let kwargs = [];
         kwargs = put ''fixedTimeStep'' time_step PFloat kwargs;
         kwargs = put ''numSolverIterations'' num_solver_iterations PInt kwargs;
         kwargs = put ''useSplitImpulse'' use_split_impulse PInt kwargs;
         kwargs = put ''splitImpulsePenetrationThreshold'' split_impulse_penetration_threshold PFloat kwargs;
         kwargs = put ''numSubSteps'' num_sub_steps PInt kwargs;
         kwargs = put ''collisionFilterMode'' collision_filter_mode PInt kwargs;
         kwargs = put ''contactBreakingThreshold'' contact_breaking_threshold PFloat kwargs;
         kwargs = put ''maxNumCmdPer1ms'' max_num_cmd_per_1ms PInt kwargs;
         kwargs = put ''enableFileCaching'' enable_file_caching PBool kwargs;
         kwargs = put ''restitutionVelocityThreshold'' restitution_velocity_threshold PFloat kwargs;
         kwargs = put ''erp'' erp PFloat kwargs;
         kwargs = put ''contactERP'' contact_erp PFloat kwargs;
         kwargs = put ''frictionERP'' friction_erp PFloat kwargs;
         kwargs = put ''enableConeFriction'' enable_cone_friction int_of_bool kwargs;
         kwargs = put ''deterministicOverlappingPairs'' deterministic_overlapping_pairs int_of_bool kwargs;
         kwargs = put ''solverResidualThreshold'' solver_residual_threshold PFloat kwargs
     in kwargs)"

definition set_physics_properties ::
  "engine \<Rightarrow> real option \<Rightarrow> int option \<Rightarrow> int option \<Rightarrow> real option \<Rightarrow> int option \<Rightarrow> int option \<Rightarrow>
   real option \<Rightarrow> int option \<Rightarrow> bool option \<Rightarrow> real option \<Rightarrow> real option \<Rightarrow> real option \<Rightarrow>
   real option \<Rightarrow> bool option \<Rightarrow> bool option \<Rightarrow> real option \<Rightarrow> pyval m" where
  "set_physics_properties eng time_step num_solver_iterations use_split_impulse
     split_impulse_penetration_threshold num_sub_steps collision_filter_mode
     contact_breaking_threshold max_num_cmd_per_1ms enable_file_caching
     restitution_velocity_threshold erp contact_erp friction_erp enable_cone_friction
     deterministic_overlapping_pairs solver_residual_threshold =
     bnd (sim eng (Call ''setPhysicsEngineParameter'' []
            (set_physics_properties_kwargs time_step num_solver_iterations use_split_impulse
               split_impulse_penetration_threshold num_sub_steps collision_filter_mode
               contact_breaking_threshold max_num_cmd_per_1ms enable_file_caching
               restitution_velocity_threshold erp contact_erp friction_erp enable_cone_friction
               deterministic_overlapping_pairs solver_residual_threshold)))
       (\<lambda>_. ret PNone)"

subsection \<open>\<open>start_logging\<close>\<close>

definition start_logging_kwargs ::
  "int list option \<Rightarrow> int option \<Rightarrow> int option \<Rightarrow> int option \<Rightarrow> int option \<Rightarrow> int option \<Rightarrow>
   int option \<Rightarrow> int option \<Rightarrow> (string \<times> pyval) list" where
  "start_logging_kwargs object_unique_ids max_log_dof body_unique_id_A body_unique_id_B
     link_index_A link_index_B device_type_filter log_flags =
    (let kwargs = [];
         kwargs = put ''objectUniqueIds'' object_unique_ids ints kwargs;
         kwargs = put ''maxLogDof'' max_log_dof PInt kwargs;
         kwargs = put ''bodyUniqueIdA'' body_unique_id_A PInt kwargs;
         kwargs = put ''bodyUniqueIdB'' body_unique_id_B PInt kwargs;
         kwargs = put ''linkIndexA'' link_index_A PInt kwargs;
         kwargs = put ''linkIndexB'' link_index_B PInt kwargs;
         kwargs = put ''deviceTypeFilter'' device_type_filter PInt kwargs;
         kwargs = put ''logFlags'' log_flags PInt kwargs
     in kwargs)"

text \<open>The engine's answer is dropped: the body ends without a \<open>return\<close>.\<close>

definition start_logging ::
  "engine \<Rightarrow> int \<Rightarrow> string \<Rightarrow> int list option \<Rightarrow> int option \<Rightarrow> int option \<Rightarrow> int option \<Rightarrow>
   int option \<Rightarrow> int option \<Rightarrow> int option \<Rightarrow> int option \<Rightarrow> pyval m" where
  "start_logging eng logging_type filename object_unique_ids max_log_dof body_unique_id_A
     body_unique_id_B link_index_A link_index_B device_type_filter log_flags =
     bnd (sim eng (Call ''startStateLogging'' [PInt logging_type, PStr filename]
            (start_logging_kwargs object_unique_ids max_log_dof body_unique_id_A body_unique_id_B
               link_index_A link_index_B device_type_filter log_flags)))
       (\<lambda>_. ret PNone)"

subsection \<open>\<open>change_constraint\<close>\<close>

definition change_constraint_kwargs ::
  "real list option \<Rightarrow> real list option \<Rightarrow> real option \<Rightarrow> real option \<Rightarrow> int option \<Rightarrow>
   real option \<Rightarrow> real option \<Rightarrow> (string \<times> pyval) list" where
  "change_constraint_kwargs child_joint_pivot child_frame_orientation max_force gear_ratio
     gear_auxiliary_link relative_position_target erp =
    (let kwargs = [];
         kwargs = put ''jointChildPivot'' child_joint_pivot vec kwargs;
         kwargs = put ''jointChildFrameOrientation'' child_frame_orientation vec kwargs;
         kwargs = put ''maxForce'' max_force PFloat kwargs;
         kwargs = put ''gearRatio'' gear_ratio PFloat kwargs;
         kwargs = put ''gearAuxLink'' gear_auxiliary_link PInt kwargs;
         kwargs = put ''relativePositionTarget'' relative_position_target PFloat kwargs;
         kwargs = put ''erp'' erp PFloat kwargs
     in kwargs)"

definition change_constraint ::
  "engine \<Rightarrow> int \<Rightarrow> real list option \<Rightarrow> real list option \<Rightarrow> real option \<Rightarrow> real option \<Rightarrow>
   int option \<Rightarrow> real option \<Rightarrow> real option \<Rightarrow> pyval m" where
  "change_constraint eng constraint_id child_joint_pivot child_frame_orientation max_force
     gear_ratio gear_auxiliary_link relative_position_target erp =
     bnd (sim eng (Call ''changeConstraint'' [PInt constraint_id]
            (change_constraint_kwargs child_joint_pivot child_frame_orientation max_force
               gear_ratio gear_auxiliary_link relative_position_target erp)))
       (\<lambda>_. ret PNone)"

subsection \<open>\<open>change_visual_shape\<close>\<close>

definition change_visual_shape_kwargs ::
  "int option \<Rightarrow> int option \<Rightarrow> real list option \<Rightarrow> int list option \<Rightarrow> (string \<times> pyval) list" where
  "change_visual_shape_kwargs shape_id texture_id rgba_color specular_color =
    (let kwargs = [];
         kwargs = put ''shapeIndex'' shape_id PInt kwargs;
         kwargs = put ''textureUniqueId'' texture_id PInt kwargs;
         kwargs = put ''rgbaColor'' rgba_color vec kwargs;
         kwargs = put ''specularColor'' specular_color ints kwargs
     in kwargs)"

definition change_visual_shape ::
  "engine \<Rightarrow> int \<Rightarrow> int \<Rightarrow> int option \<Rightarrow> int option \<Rightarrow> real list option \<Rightarrow> int list option \<Rightarrow> pyval m" where
  "change_visual_shape eng object_id link_id shape_id texture_id rgba_color specular_color =
     bnd (sim eng (Call ''changeVisualShape'' [PInt object_id, PInt link_id]
            (change_visual_shape_kwargs shape_id texture_id rgba_color specular_color)))
       (\<lambda>_. ret PNone)"

subsection \<open>\<open>change_dynamics\<close>\<close>

definition change_dynamics_kwargs ::
  "real option \<Rightarrow> real option \<Rightarrow> real option \<Rightarrow> real option \<Rightarrow> real option \<Rightarrow> real option \<Rightarrow>
   real option \<Rightarrow> real option \<Rightarrow> real option \<Rightarrow> int option \<Rightarrow> real list option \<Rightarrow> real option \<Rightarrow>
   (string \<times> pyval) list" where
  "change_dynamics_kwargs mass lateral_friction spinning_friction rolling_friction restitution
     linear_damping angular_damping contact_stiffness contact_damping friction_anchor
     local_inertia_diagonal joint_damping =
    (let kwargs = [];
         kwargs = put ''mass'' mass PFloat kwargs;
         kwargs = put ''lateralFriction'' lateral_friction PFloat kwargs;
         kwargs = put ''spinningFriction'' spinning_friction PFloat kwargs;
         kwargs = put ''rollingFriction'' rolling_friction PFloat kwargs;
         kwargs = put ''restitution'' restitution PFloat kwargs;
         kwargs = put ''linearDamping'' linear_damping PFloat kwargs;
         kwargs = put ''angularDamping'' angular_damping PFloat kwargs;
         kwargs = put ''contactStiffness'' contact_stiffness PFloat kwargs;
         kwargs = put ''contactDamping'' contact_damping PFloat kwargs;
         kwargs = put ''frictionAnchor'' friction_anchor PInt kwargs;
         kwargs = put ''localInertiaDiagonal'' local_inertia_diagonal vec kwargs;
         kwargs = put ''jointDamping'' joint_damping PFloat kwargs
     in kwargs)"

definition change_dynamics ::
  "engine \<Rightarrow> int \<Rightarrow> int \<Rightarrow> real option \<Rightarrow> real option \<Rightarrow> real option \<Rightarrow> real option \<Rightarrow> real option \<Rightarrow>
   real option \<Rightarrow> real option \<Rightarrow> real option \<Rightarrow> real option \<Rightarrow> int option \<Rightarrow> real list option \<Rightarrow>
   real option \<Rightarrow> pyval m" where
  "change_dynamics eng body_id link_id mass lateral_friction spinning_friction rolling_friction
     restitution linear_damping angular_damping contact_stiffness contact_damping friction_anchor
     local_inertia_diagonal joint_damping =
     bnd (sim eng (Call ''changeDynamics'' [PInt body_id, PInt link_id]
            (change_dynamics_kwargs mass lateral_friction spinning_friction rolling_friction
               restitution linear_damping angular_damping contact_stiffness contact_damping
               friction_anchor local_inertia_diagonal joint_damping)))
       (\<lambda>_. ret PNone)"

section \<open>Base state\<close>

definition get_base_pose :: "engine \<Rightarrow> int \<Rightarrow> pyval m" where
  "get_base_pose eng body_id =
     bnd (sim eng (Call ''getBasePositionAndOrientation'' [PInt body_id] []))
       (\<lambda>r. bnd (lift (unpack 2 r))
         (\<lambda>xs. let pos = xs ! 0; orientation = xs ! 1
               in ret (PSeq [np_array pos, np_array orientation])))"

definition get_base_position :: "engine \<Rightarrow> int \<Rightarrow> pyval m" where
  "get_base_position eng body_id = bnd (get_base_pose eng body_id) (\<lambda>r. lift (py_index r 0))"

definition get_base_orientation :: "engine \<Rightarrow> int \<Rightarrow> pyval m" where
  "get_base_orientation eng body_id = bnd (get_base_pose eng body_id) (\<lambda>r. lift (py_index r 1))"

definition reset_base_pose :: "engine \<Rightarrow> int \<Rightarrow> pyval \<Rightarrow> pyval \<Rightarrow> pyval m" where
  "reset_base_pose eng body_id position orientation =
     bnd (sim eng (Call ''resetBasePositionAndOrientation'' [PInt body_id, position, orientation] []))
       (\<lambda>_. ret PNone)"

definition reset_base_position :: "engine \<Rightarrow> int \<Rightarrow> pyval \<Rightarrow> pyval m" where
  "reset_base_position eng body_id position =
     bnd (get_base_orientation eng body_id)
       (\<lambda>orientation. reset_base_pose eng body_id position orientation)"

definition reset_base_orientation :: "engine \<Rightarrow> int \<Rightarrow> pyval \<Rightarrow> pyval m" where
  "reset_base_orientation eng body_id orientation =
     bnd (get_base_position eng body_id)
       (\<lambda>position. reset_base_pose eng body_id position orientation)"

definition get_base_velocity :: "engine \<Rightarrow> int \<Rightarrow> pyval m" where
  "get_base_velocity eng body_id =
     bnd (sim eng (Call ''getBaseVelocity'' [PInt body_id] []))
       (\<lambda>r. bnd (lift (unpack 2 r))
         (\<lambda>xs. let lin_vel = xs ! 0; ang_vel = xs ! 1
               in ret (PSeq [np_array lin_vel, np_array ang_vel])))"

definition get_base_linear_velocity :: "engine \<Rightarrow> int \<Rightarrow> pyval m" where
  "get_base_linear_velocity eng body_id = bnd (get_base_velocity eng body_id) (\<lambda>r. lift (py_index r 0))"

section \<open>Batch accessors\<close>

text \<open>
  The identifier argument of a batch accessor: a single int (\<open>isinstance(ids, int)\<close>)
  or a list of ints.
\<close>

datatype ids = One int | Many "int list"

fun ids_val :: "ids \<Rightarrow> pyval" where
  "ids_val (One i) = PInt i"
| "ids_val (Many js) = ints js"

subsection \<open>Link accessors\<close>




subsection \<open>Joint accessors and setters\<close>

definition get_joint_positions :: "engine \<Rightarrow> int \<Rightarrow> ids \<Rightarrow> pyval m" where
  "get_joint_positions eng body_id joint_ids =
     (case joint_ids of
        One joint_id \<Rightarrow>
          bnd (sim eng (Call ''getJointState'' [PInt body_id, PInt joint_id] []))
            (\<lambda>r. lift (py_index r 0))
      | Many js \<Rightarrow>
          bnd (sim eng (Call ''getJointStates'' [PInt body_id, ints js] []))
            (\<lambda>r. bnd (lift (py_iter r))
              (\<lambda>states. bnd (lift (mapM (\<lambda>state. py_index state 0) states))
                (\<lambda>ps. ret (np_array (PSeq ps))))))"

text \<open>An argument that may be \<open>None\<close>, read by \<open>x is not None\<close>.\<close>

definition not_None :: "pyval \<Rightarrow> pyval option" where
  "not_None x = (if x = PNone then None else Some x)"

definition set_joint_motor_control ::
  "engine \<Rightarrow> int \<Rightarrow> int \<Rightarrow> int \<Rightarrow> pyval \<Rightarrow> pyval \<Rightarrow> pyval \<Rightarrow> pyval \<Rightarrow> pyval \<Rightarrow> pyval \<Rightarrow> pyval m" where
  "set_joint_motor_control eng body_id joint_id control_mode position velocity force kp kd max_velocity =
    (let kwargs = [];
         kwargs = put ''targetPosition'' (not_None position) (\<lambda>v. v) kwargs;
         kwargs = put ''targetVelocity'' (not_None velocity) (\<lambda>v. v) kwargs;
         kwargs = put ''force'' (not_None force) (\<lambda>v. v) kwargs;
         kwargs = put ''positionGain'' (not_None kp) (\<lambda>v. v) kwargs;
         kwargs = put ''velocityGain'' (not_None kd) (\<lambda>v. v) kwargs;
         kwargs = put ''maxVelocity'' (not_None max_velocity) (\<lambda>v. v) kwargs
     in bnd (sim eng (Call ''setJointMotorControl2'' [PInt body_id, PInt joint_id]
                        ([(''controlMode'', PInt control_mode)] @ kwargs)))
          (\<lambda>_. ret PNone))"

definition set_joint_motor_control_array ::
  "engine \<Rightarrow> int \<Rightarrow> int list \<Rightarrow> int \<Rightarrow> pyval \<Rightarrow> pyval \<Rightarrow> pyval \<Rightarrow> pyval \<Rightarrow> pyval \<Rightarrow> pyval m" where
  "set_joint_motor_control_array eng body_id joint_ids control_mode positions velocities forces kps kds =
    (let kwargs = [];
         kwargs = put ''targetPositions'' (not_None positions) (\<lambda>v. v) kwargs;
         kwargs = put ''targetVelocities'' (not_None velocities) (\<lambda>v. v) kwargs;
         kwargs = put ''forces'' (not_None forces) (\<lambda>v. v) kwargs;
         kwargs = put ''positionGains'' (not_None kps) (\<lambda>v. v) kwargs;
         kwargs = put ''velocityGains'' (not_None kds) (\<lambda>v. v) kwargs
     in bnd (sim eng (Call ''setJointMotorControlArray'' [PInt body_id, ints joint_ids]
                        ([(''controlMode'', PInt control_mode)] @ kwargs)))
          (\<lambda>_. ret PNone))"

definition set_joint_positions ::
  "engine \<Rightarrow> int \<Rightarrow> ids \<Rightarrow> pyval \<Rightarrow> pyval \<Rightarrow> pyval \<Rightarrow> pyval \<Rightarrow> pyval \<Rightarrow> pyval m" where
  "set_joint_positions eng body_id joint_ids positions velocities kps kds forces =
     (case joint_ids of
        One joint_id \<Rightarrow>
          set_joint_motor_control eng body_id joint_id POSITION_CONTROL positions velocities forces
            kps kds PNone
      | Many js \<Rightarrow>
          set_joint_motor_control_array eng body_id js POSITION_CONTROL positions velocities forces
            kps kds)"

text \<open>
  \<open>set_joint_velocities\<close>: two calls guarded by \<open>if max_force is None\<close> and two
  unguarded ones, none followed by \<open>return\<close> or \<open>else\<close>.
\<close>

fun is_One :: "ids \<Rightarrow> bool" where
  "is_One (One i) = True"
| "is_One (Many js) = False"

definition set_joint_velocities :: "engine \<Rightarrow> int \<Rightarrow> ids \<Rightarrow> pyval \<Rightarrow> pyval \<Rightarrow> pyval m" where
  "set_joint_velocities eng body_id joint_ids velocities max_force =
     bnd (if is_One joint_ids then
            bnd (if max_force = PNone then
                   sim eng (Call ''setJointMotorControl2''
                     [PInt body_id, ids_val joint_ids, PInt VELOCITY_CONTROL]
                     [(''targetVelocity'', velocities)])
                 else ret PNone)
              (\<lambda>_. sim eng (Call ''setJointMotorControl2''
                     [PInt body_id, ids_val joint_ids, PInt VELOCITY_CONTROL]
                     [(''targetVelocity'', velocities), (''force'', max_force)]))
          else ret PNone)
       (\<lambda>_. bnd (if max_force = PNone then
                   sim eng (Call ''setJointMotorControlArray''
                     [PInt body_id, ids_val joint_ids, PInt VELOCITY_CONTROL]
                     [(''targetVelocities'', velocities)])
                 else ret PNone)
              (\<lambda>_. bnd (sim eng (Call ''setJointMotorControlArray''
                     [PInt body_id, ids_val joint_ids, PInt VELOCITY_CONTROL]
                     [(''targetVelocities'', velocities), (''forces'', max_force)]))
                   (\<lambda>_. ret PNone)))"

text \<open>
  The argument check at the head of \<open>set_joint_accelerations\<close>, which runs before the
  operation's first engine call: both arguments are wrapped into lists when scalar, then
  their lengths are compared. It gives the normalised arguments, or the exception raised.
\<close>

fun isinstance_int_float :: "pyval \<Rightarrow> bool" where
  "isinstance_int_float (PInt i) = True"
| "isinstance_int_float (PBool b) = True"
| "isinstance_int_float (PFloat r) = True"
| "isinstance_int_float v = False"

fun py_len :: "pyval \<Rightarrow> error + nat" where
  "py_len (PSeq xs) = Inr (length xs)"
| "py_len (PArr xs) = Inr (length xs)"
| "py_len (PStr s) = Inr (length s)"
| "py_len v = Inl (TypeError ''object has no len()'')"

definition set_joint_accelerations_check :: "ids \<Rightarrow> pyval \<Rightarrow> error + (int list \<times> pyval)" where
  "set_joint_accelerations_check joint_ids accelerations =
    (let joint_ids = (case joint_ids of One i \<Rightarrow> [i] | Many js \<Rightarrow> js);
         accelerations = (if isinstance_int_float accelerations then PSeq [accelerations] else accelerations)
     in case py_len accelerations of
          Inl e \<Rightarrow> Inl e
        | Inr n \<Rightarrow>
            if n \<noteq> length joint_ids
            then Inl (ValueError ''Expecting the desired accelerations to be of the same size as the number of joints'')
            else Inr (joint_ids, accelerations))"

section \<open>Matrices and angles\<close>

text \<open>The expression \<open>np.array(v).reshape(4, 4).T\<close>.\<close>

definition array_reshape44_T :: "pyval \<Rightarrow> error + pyval" where
  "array_reshape44_T v = (case reshape44 (np_array v) of Inl e \<Rightarrow> Inl e | Inr a \<Rightarrow> Inr (np_T a))"

definition compute_view_matrix :: "engine \<Rightarrow> pyval \<Rightarrow> pyval \<Rightarrow> pyval \<Rightarrow> pyval m" where
  "compute_view_matrix eng eye_position target_position up_vector =
     bnd (sim eng (Call ''computeViewMatrix'' []
            [(''eyePosition'', eye_position), (''targetPosition'', target_position),
             (''upVector'', up_vector)]))
       (\<lambda>view. lift (array_reshape44_T view))"

definition compute_view_matrix_from_ypr ::
  "engine \<Rightarrow> pyval \<Rightarrow> real \<Rightarrow> real \<Rightarrow> real \<Rightarrow> real \<Rightarrow> int \<Rightarrow> pyval m" where
  "compute_view_matrix_from_ypr eng target_position distance yaw pitch roll up_axis_index =
     bnd (sim eng (Call ''computeViewMatrixFromYawPitchRoll'' []
            [(''targetPosition'', target_position), (''distance'', PFloat distance),
             (''yaw'', PFloat (rad2deg yaw)), (''pitch'', PFloat (rad2deg pitch)),
             (''roll'', PFloat (rad2deg roll)), (''upAxisIndex'', PInt up_axis_index)]))
       (\<lambda>view. lift (array_reshape44_T view))"

definition compute_projection_matrix ::
  "engine \<Rightarrow> real \<Rightarrow> real \<Rightarrow> real \<Rightarrow> real \<Rightarrow> real \<Rightarrow> real \<Rightarrow> pyval m" where
  "compute_projection_matrix eng left right bottom top' near far =
     bnd (sim eng (Call ''computeProjectionMatrix''
            [PFloat left, PFloat right, PFloat bottom, PFloat top', PFloat near, PFloat far] []))
       (\<lambda>proj. lift (array_reshape44_T proj))"

definition compute_projection_matrix_fov :: "engine \<Rightarrow> real \<Rightarrow> real \<Rightarrow> real \<Rightarrow> real \<Rightarrow> pyval m" where
  "compute_projection_matrix_fov eng fov aspect near far =
     bnd (sim eng (Call ''computeProjectionMatrixFOV''
            [PFloat fov, PFloat aspect, PFloat near, PFloat far] []))
       (\<lambda>proj. lift (array_reshape44_T proj))"

definition get_debug_visualizer :: "engine \<Rightarrow> pyval m" where
  "get_debug_visualizer eng =
     bnd (sim eng (Call ''getDebugVisualizerCamera'' [] []))
       (\<lambda>r. bnd (lift (unpack 12 r))
         (\<lambda>xs. let width = xs ! 0; height = xs ! 1; view = xs ! 2; proj = xs ! 3;
                   up_vec = xs ! 4; forward_vec = xs ! 5; horizontal = xs ! 6; vertical = xs ! 7;
                   yaw = xs ! 8; pitch = xs ! 9; distance = xs ! 10; target = xs ! 11
               in bnd (lift (array_reshape44_T view))
                 (\<lambda>view. bnd (lift (array_reshape44_T proj))
                   (\<lambda>proj. let up_vec = np_array up_vec;
                               forward_vec = np_array forward_vec;
                               horizontal = np_array horizontal;
                               vertical = np_array vertical;
                               target = np_array target
                           in bnd (lift (np_deg2rad yaw))
                             (\<lambda>yaw. bnd (lift (np_deg2rad pitch))
                               (\<lambda>pitch. ret (PSeq [width, height, view, proj, up_vec, forward_vec,
                                                    horizontal, vertical, yaw, pitch, distance,
                                                    target])))))))"

definition reset_debug_visualizer :: "engine \<Rightarrow> real \<Rightarrow> real \<Rightarrow> real \<Rightarrow> pyval \<Rightarrow> pyval m" where
  "reset_debug_visualizer eng distance yaw pitch target_position =
     bnd (sim eng (Call ''resetDebugVisualizerCamera'' []
            [(''cameraDistance'', PFloat distance), (''cameraYaw'', PFloat (rad2deg yaw)),
             (''cameraPitch'', PFloat (rad2deg pitch)), (''cameraTargetPosition'', target_position)]))
       (\<lambda>_. ret PNone)"

section \<open>Shape creation\<close>

definition create_visual_shape ::
  "engine \<Rightarrow> int \<Rightarrow> real \<Rightarrow> real list \<Rightarrow> real \<Rightarrow> string option \<Rightarrow> real list \<Rightarrow> real list \<Rightarrow> int \<Rightarrow>
   real list option \<Rightarrow> real list option \<Rightarrow> real list option \<Rightarrow> pyval option \<Rightarrow> int list option \<Rightarrow>
   pyval option \<Rightarrow> pyval option \<Rightarrow> real list option \<Rightarrow> pyval m" where
  "create_visual_shape eng shape_type radius half_extents length' filename mesh_scale plane_normal
     flags rgba_color specular_color visual_frame_position vertices indices uvs normals
     visual_frame_orientation =
    (let kwargs = [];
         kwargs = put ''rgbaColor'' rgba_color vec kwargs;
         kwargs = put ''specularColor'' specular_color vec kwargs;
         kwargs = put ''visualFramePosition'' visual_frame_position vec kwargs;
         kwargs = put ''visualFrameOrientation'' visual_frame_orientation vec kwargs
     in if shape_type = GEOM_SPHERE then
          sim eng (Call ''createVisualShape'' [PInt shape_type]
                     ([(''radius'', PFloat radius)] @ kwargs))
        else if shape_type = GEOM_BOX then
          sim eng (Call ''createVisualShape'' [PInt shape_type]
                     ([(''halfExtents'', vec half_extents)] @ kwargs))
        else if shape_type = GEOM_CAPSULE \<or> shape_type = GEOM_CYLINDER then
          sim eng (Call ''createVisualShape'' [PInt shape_type]
                     ([(''radius'', PFloat radius), (''length'', PFloat length')] @ kwargs))
        else if shape_type = GEOM_PLANE then
          sim eng (Call ''createVisualShape'' [PInt shape_type]
                     ([(''planeNormal'', vec plane_normal)] @ kwargs))
        else if shape_type = GEOM_MESH then
          (let kwargs =
                 (if filename \<noteq> None then put ''fileName'' filename PStr kwargs
                  else (let kwargs = put ''vertices'' vertices (\<lambda>v. v) kwargs;
                            kwargs = put ''indices'' indices ints kwargs;
                            kwargs = put ''uvs'' uvs (\<lambda>v. v) kwargs;
                            kwargs = put ''normals'' normals (\<lambda>v. v) kwargs
                        in kwargs))
           in sim eng (Call ''createVisualShape'' [PInt shape_type] kwargs))
        else raise (ValueError ''Unknown visual shape type.''))"

text \<open>A parameter whose \<open>None\<close> is forwarded as it is.\<close>

definition str_or_None :: "string option \<Rightarrow> pyval" where
  "str_or_None x = (case x of None \<Rightarrow> PNone | Some s \<Rightarrow> PStr s)"

definition create_collision_shape ::
  "engine \<Rightarrow> int \<Rightarrow> real \<Rightarrow> real list \<Rightarrow> real \<Rightarrow> string option \<Rightarrow> real list \<Rightarrow> real list \<Rightarrow> int \<Rightarrow>
   real list option \<Rightarrow> real list option \<Rightarrow> pyval m" where
  "create_collision_shape eng shape_type radius half_extents height filename mesh_scale plane_normal
     flags collision_frame_position collision_frame_orientation =
    (let kwargs = [];
         kwargs = put ''collisionFramePosition'' collision_frame_position vec kwargs;
         kwargs = put ''collisionFrameOrientation'' collision_frame_orientation vec kwargs
     in if shape_type = GEOM_SPHERE then
          sim eng (Call ''createCollisionShape'' [PInt shape_type]
                     ([(''radius'', PFloat radius)] @ kwargs))
        else if shape_type = GEOM_BOX then
          sim eng (Call ''createCollisionShape'' [PInt shape_type]
                     ([(''halfExtents'', vec half_extents)] @ kwargs))
        else if shape_type = GEOM_CAPSULE \<or> shape_type = GEOM_CYLINDER then
          sim eng (Call ''createCollisionShape'' [PInt shape_type]
                     ([(''radius'', PFloat radius), (''height'', PFloat height)] @ kwargs))
        else if shape_type = GEOM_PLANE then
          sim eng (Call ''createCollisionShape'' [PInt shape_type]
                     ([(''planeNormal'', vec plane_normal)] @ kwargs))
        else if shape_type = GEOM_MESH then
          sim eng (Call ''createCollisionShape'' [PInt shape_type]
                     ([(''fileName'', str_or_None filename)] @ kwargs))
        else raise (ValueError ''Unknown collision shape type.''))"

section \<open>Orientation conventions\<close>

text \<open>
  Modelled from the spec: the class \<open>QuaternionListConverter\<close> of
  \<open>pyrobolearn/utils/converter.py\<close>, built in \<open>__init__\<close> as
  \<open>self.quat_conv = QuaternionListConverter(convention=1)\<close>, is not among the sources.
  Following the spec, \<open>convertFrom\<close> reorders the four components of a scalar-first
  orientation (w, x, y, z) into the scalar-last list [x, y, z, w] the engine expects, and
  \<open>convertTo\<close> reorders a scalar-last list of the engine back into scalar-first
  components; a list that does not have four components has no such reading.
\<close>

definition convertFrom :: "real \<times> real \<times> real \<times> real \<Rightarrow> real list" where
  "convertFrom q = (case q of (w, x, y, z) \<Rightarrow> [x, y, z, w])"

definition convertTo :: "real list \<Rightarrow> (real \<times> real \<times> real \<times> real) option" where
  "convertTo l = (case l of [x, y, z, w] \<Rightarrow> Some (w, x, y, z) | _ \<Rightarrow> None)"

text \<open>
  The orientation argument of \<open>load_urdf\<close> and \<open>create_body\<close>: an array is flattened
  to a list, a structured quaternion goes through \<open>quat_conv.convertFrom\<close>, anything
  else is forwarded as it is.
\<close>

fun convert_orientation :: "pyval \<Rightarrow> pyval" where
  "convert_orientation (PArr xs) = ravel_tolist (PArr xs)"
| "convert_orientation (PQuat w x y z) = vec (convertFrom (w, x, y, z))"
| "convert_orientation v = v"

definition load_urdf ::
  "engine \<Rightarrow> string \<Rightarrow> pyval \<Rightarrow> pyval \<Rightarrow> int \<Rightarrow> bool \<Rightarrow> int \<Rightarrow> real \<Rightarrow> pyval m" where
  "load_urdf eng filename position orientation use_maximal_coordinates use_fixed_base flags scale =
    (let position =
           (if position \<noteq> PNone then (if is_arr position then ravel_tolist position else position)
            else position);
         orientation =
           (if orientation \<noteq> PNone then convert_orientation orientation else orientation)
     in sim eng (Call ''loadURDF''
                   [PStr filename, position, orientation, PInt use_maximal_coordinates,
                    int_of_bool use_fixed_base, PInt flags, PFloat scale] []))"

definition create_body :: "engine \<Rightarrow> int \<Rightarrow> int \<Rightarrow> pyval \<Rightarrow> pyval \<Rightarrow> pyval \<Rightarrow> pyval m" where
  "create_body eng visual_shape_id collision_shape_id mass position orientation =
    (let position = (if is_arr position then ravel_tolist position else position);
         orientation = convert_orientation orientation
     in sim eng (Call ''createMultiBody'' []
                   [(''baseMass'', mass), (''baseCollisionShapeIndex'', PInt collision_shape_id),
                    (''baseVisualShapeIndex'', PInt visual_shape_id), (''basePosition'', position),
                    (''baseOrientation'', orientation)]))"

section \<open>Vocabulary of the properties, and engines to run them on\<close>

text \<open>
  The names in a keyword dict, the engine-side names of the parameters a caller supplied
  (a table of name and "was supplied"), and what an operation forwarded: the method and
  the keyword names of every call it issued.
\<close>

definition keys :: "(string \<times> pyval) list \<Rightarrow> string set" where
  "keys kw = fst ` set kw"

definition supplied :: "(string \<times> bool) list \<Rightarrow> string set" where
  "supplied ps = {n. (n, True) \<in> set ps}"

definition name_if :: "bool \<Rightarrow> string \<Rightarrow> string set" where
  "name_if b n = (if b then {n} else {})"

definition forwarded :: "'a m \<Rightarrow> trace \<Rightarrow> (string \<times> string set) list" where
  "forwarded f tr = map (\<lambda>c. (call_name c, keys (kwargs c))) (issued f tr)"

text \<open>An engine that answers every call with \<open>None\<close>.\<close>

definition null_engine :: engine where
  "null_engine = (\<lambda>tr c. Inr PNone)"

text \<open>An engine with fixed, well-formed answers.\<close>

definition link_state :: pyval where
  "link_state = PSeq [vec [1, 2, 3], vec [0, 0, 0, 1], vec [0, 0, 0], vec [0, 0, 0, 1],
                      vec [1, 2, 3], vec [0, 0, 0, 1], vec [4, 5, 6], vec [7, 8, 9]]"

definition joint_state :: "pyval \<Rightarrow> pyval" where
  "joint_state j = PSeq [(case j of PInt i \<Rightarrow> PFloat (of_int i / 10) | _ \<Rightarrow> PFloat 0),
                         PFloat 0, vec [0, 0, 0, 0, 0, 0], PFloat 0]"

definition demo_engine :: engine where
  "demo_engine tr c =
     (if call_name c = ''getBasePositionAndOrientation'' then
        Inr (PSeq [vec [10, 20, 30], vec [0, 0, 0, 1]])
      else if call_name c = ''getBaseVelocity'' then
        Inr (PSeq [vec [40, 50, 60], vec [70, 80, 90]])
      else if call_name c = ''getLinkState'' then Inr link_state
      else if call_name c = ''getJointState'' then
        (case args c of [b, j] \<Rightarrow> Inr (joint_state j) | _ \<Rightarrow> Inl ''bad arguments'')
      else if call_name c = ''getJointStates'' then
        (case args c of [b, js] \<Rightarrow> Inr (PSeq (map joint_state (elems js))) | _ \<Rightarrow> Inl ''bad arguments'')
      else if call_name c = ''startStateLogging'' then Inr (PInt 7)
      else if call_name c = ''computeViewMatrix'' then
        Inr (vec [1, 2, 3, 4, 5, 6, 7, 8, 9, 10, 11, 12, 13, 14, 15, 16])
      else Inr PNone)"




text \<open>An engine that remembers the camera set by the last call, in degrees.\<close>

definition identity16 :: pyval where
  "identity16 = vec [1, 0, 0, 0, 0, 1, 0, 0, 0, 0, 1, 0, 0, 0, 0, 1]"

definition kw_get :: "(string \<times> pyval) list \<Rightarrow> string \<Rightarrow> pyval" where
  "kw_get kw n = (case map_of kw n of None \<Rightarrow> PNone | Some v \<Rightarrow> v)"

definition camera_engine :: engine where
  "camera_engine tr c =
     (if call_name c = ''getDebugVisualizerCamera'' then
        (let cam = (if tr \<noteq> [] \<and> call_name (last tr) = ''resetDebugVisualizerCamera''
                    then kwargs (last tr)
                    else [(''cameraDistance'', PFloat 1), (''cameraYaw'', PFloat 0),
                          (''cameraPitch'', PFloat 0), (''cameraTargetPosition'', vec [0, 0, 0])])
         in Inr (PSeq [PInt 640, PInt 480, identity16, identity16, vec [0, 0, 1], vec [1, 0, 0],
                       vec [0, 1, 0], vec [0, 0, 1], kw_get cam ''cameraYaw'',
                       kw_get cam ''cameraPitch'', kw_get cam ''cameraDistance'',
                       kw_get cam ''cameraTargetPosition'']))
      else Inr PNone)"

text \<open>The identity matrix, as the flat list of the engine and as a 4x4 array.\<close>

definition identity44 :: pyval where
  "identity44 = PArr [PArr [PFloat 1, PFloat 0, PFloat 0, PFloat 0],
                      PArr [PFloat 0, PFloat 1, PFloat 0, PFloat 0],
                      PArr [PFloat 0, PFloat 0, PFloat 1, PFloat 0],
                      PArr [PFloat 0, PFloat 0, PFloat 0, PFloat 1]]"


text \<open>
  The geometry kinds the shape-creation operations recognize, and the exceptions raised by
  the adapter's own code, as opposed to those of the engine.
\<close>

definition recognized_shape :: "int \<Rightarrow> bool" where
  "recognized_shape shape_type \<longleftrightarrow>
     shape_type \<in> set [GEOM_SPHERE, GEOM_BOX, GEOM_CAPSULE, GEOM_CYLINDER, GEOM_PLANE, GEOM_MESH]"

fun local_error :: "error + 'a \<Rightarrow> bool" where
  "local_error (Inl (EngineError msg)) = False"
| "local_error (Inl e) = True"
| "local_error (Inr v) = False"

section \<open>Running operations: the calls they issue\<close>

lemma snd_sim [simp]: "snd (sim eng c tr) = tr @ [c]"
  by (simp add: sim_def)

lemma snd_ret [simp]: "snd (ret v tr) = tr" by (simp add: ret_def)
lemma snd_lift [simp]: "snd (lift r tr) = tr" by (simp add: lift_def)
lemma snd_raise [simp]: "snd (raise e tr) = tr" by (simp add: raise_def)

lemma snd_bnd_silent: "(\<And>v tr'. snd (g v tr') = tr') \<Longrightarrow> snd (bnd f g tr) = snd (f tr)"
  by (simp add: bnd_def split: prod.splits sum.splits)

lemma snd_get_base_pose [simp]:
  "snd (get_base_pose eng body_id tr) = tr @ [Call ''getBasePositionAndOrientation'' [PInt body_id] []]"
  by (simp add: get_base_pose_def snd_bnd_silent Let_def)

lemma snd_get_base_position [simp]:
  "snd (get_base_position eng body_id tr) = tr @ [Call ''getBasePositionAndOrientation'' [PInt body_id] []]"
  by (simp add: get_base_position_def snd_bnd_silent)

lemma snd_get_base_orientation [simp]:
  "snd (get_base_orientation eng body_id tr) = tr @ [Call ''getBasePositionAndOrientation'' [PInt body_id] []]"
  by (simp add: get_base_orientation_def snd_bnd_silent)

lemma snd_get_base_velocity [simp]:
  "snd (get_base_velocity eng body_id tr) = tr @ [Call ''getBaseVelocity'' [PInt body_id] []]"
  by (simp add: get_base_velocity_def snd_bnd_silent Let_def)

lemma snd_get_base_linear_velocity [simp]:
  "snd (get_base_linear_velocity eng body_id tr) = tr @ [Call ''getBaseVelocity'' [PInt body_id] []]"
  by (simp add: get_base_linear_velocity_def snd_bnd_silent)


lemma issued_one: "snd (f tr) = tr @ [c] \<Longrightarrow> issued f tr = [c]"
  by (simp add: issued_def)

lemma issued_reset: "issued (reset eng) tr = [Call ''resetSimulation'' [] []]"
  by (rule issued_one) (simp add: reset_def snd_bnd_silent)

lemma issued_set_time_step:
  "issued (set_time_step eng time_step) tr = [Call ''setTimeStep'' [] [(''timeStep'', PFloat time_step)]]"
  by (rule issued_one) (simp add: set_time_step_def snd_bnd_silent)

lemma issued_stop_logging:
  "issued (stop_logging eng logger_id) tr = [Call ''stopStateLogging'' [PInt logger_id] []]"
  by (rule issued_one) (simp add: stop_logging_def snd_bnd_silent)

lemma issued_get_base_pose:
  "issued (get_base_pose eng body_id) tr = [Call ''getBasePositionAndOrientation'' [PInt body_id] []]"
  by (rule issued_one) simp

lemma issued_get_base_position:
  "issued (get_base_position eng body_id) tr = [Call ''getBasePositionAndOrientation'' [PInt body_id] []]"
  by (rule issued_one) simp

lemma issued_get_base_orientation:
  "issued (get_base_orientation eng body_id) tr = [Call ''getBasePositionAndOrientation'' [PInt body_id] []]"
  by (rule issued_one) simp

lemma issued_get_base_velocity:
  "issued (get_base_velocity eng body_id) tr = [Call ''getBaseVelocity'' [PInt body_id] []]"
  by (rule issued_one) simp

lemma snd_reset_base_pose [simp]:
  "snd (reset_base_pose eng body_id position orientation tr) =
     tr @ [Call ''resetBasePositionAndOrientation'' [PInt body_id, position, orientation] []]"
  by (simp add: reset_base_pose_def snd_bnd_silent)

lemma issued_reset_base_pose:
  "issued (reset_base_pose eng body_id position orientation) tr =
     [Call ''resetBasePositionAndOrientation'' [PInt body_id, position, orientation] []]"
  by (rule issued_one) simp

lemma length_issued_set_joint_motor_control:
  "length (issued (set_joint_motor_control eng body_id joint_id control_mode position velocity force
     kp kd max_velocity) tr) = 1"
  by (simp add: issued_def set_joint_motor_control_def snd_bnd_silent Let_def)

lemma length_issued_set_joint_motor_control_array:
  "length (issued (set_joint_motor_control_array eng body_id js control_mode positions velocities
     forces kps kds) tr) = 1"
  by (simp add: issued_def set_joint_motor_control_array_def snd_bnd_silent Let_def)

lemma length_issued_set_joint_positions:
  "length (issued (set_joint_positions eng body_id joint_ids positions velocities kps kds forces) tr) = 1"
  by (cases joint_ids)
     (simp_all add: set_joint_positions_def length_issued_set_joint_motor_control
        length_issued_set_joint_motor_control_array)

lemma length_issued_get_joint_positions:
  "length (issued (get_joint_positions eng body_id joint_ids) tr) = 1"
  by (cases joint_ids) (simp_all add: issued_def get_joint_positions_def snd_bnd_silent)

lemma length_issued_compute_view_matrix:
  "length (issued (compute_view_matrix eng eye_position target_position up_vector) tr) = 1"
  by (simp add: issued_def compute_view_matrix_def snd_bnd_silent)

lemma length_issued_compute_view_matrix_from_ypr:
  "length (issued (compute_view_matrix_from_ypr eng target_position distance yaw pitch roll
     up_axis_index) tr) = 1"
  by (simp add: issued_def compute_view_matrix_from_ypr_def snd_bnd_silent)

lemma length_issued_compute_projection_matrix:
  "length (issued (compute_projection_matrix eng left right bottom top' near far) tr) = 1"
  by (simp add: issued_def compute_projection_matrix_def snd_bnd_silent)

lemma length_issued_compute_projection_matrix_fov:
  "length (issued (compute_projection_matrix_fov eng fov aspect near far) tr) = 1"
  by (simp add: issued_def compute_projection_matrix_fov_def snd_bnd_silent)

lemma length_issued_get_debug_visualizer: "length (issued (get_debug_visualizer eng) tr) = 1"
  by (simp add: issued_def get_debug_visualizer_def snd_bnd_silent Let_def)

lemma length_issued_reset_debug_visualizer:
  "length (issued (reset_debug_visualizer eng distance yaw pitch target_position) tr) = 1"
  by (simp add: issued_def reset_debug_visualizer_def snd_bnd_silent)

lemma length_issued_load_urdf:
  "length (issued (load_urdf eng filename position orientation use_maximal_coordinates
     use_fixed_base flags scale) tr) = 1"
  by (simp add: issued_def load_urdf_def Let_def)

lemma length_issued_create_body:
  "length (issued (create_body eng visual_shape_id collision_shape_id mass position orientation) tr) = 1"
  by (simp add: issued_def create_body_def Let_def)


lemma length_issued_set_physics_properties:
  "length (issued (set_physics_properties eng time_step num_solver_iterations use_split_impulse
      split_impulse_penetration_threshold num_sub_steps collision_filter_mode
      contact_breaking_threshold max_num_cmd_per_1ms enable_file_caching
      restitution_velocity_threshold erp contact_erp friction_erp enable_cone_friction
      deterministic_overlapping_pairs solver_residual_threshold) tr) = 1"
  by (simp add: issued_def set_physics_properties_def snd_bnd_silent)

lemma length_issued_change_dynamics:
  "length (issued (change_dynamics eng body_id link_id mass lateral_friction spinning_friction
      rolling_friction restitution linear_damping angular_damping contact_stiffness
      contact_damping friction_anchor local_inertia_diagonal joint_damping) tr) = 1"
  by (simp add: issued_def change_dynamics_def snd_bnd_silent)

lemma length_issued_change_visual_shape:
  "length (issued (change_visual_shape eng object_id link_id shape_id texture_id rgba_color
      specular_color) tr) = 1"
  by (simp add: issued_def change_visual_shape_def snd_bnd_silent)

lemma length_issued_change_constraint:
  "length (issued (change_constraint eng constraint_id child_joint_pivot child_frame_orientation
      max_force gear_ratio gear_auxiliary_link relative_position_target erp) tr) = 1"
  by (simp add: issued_def change_constraint_def snd_bnd_silent)

lemma length_issued_start_logging:
  "length (issued (start_logging eng logging_type filename object_unique_ids max_log_dof
      body_unique_id_A body_unique_id_B link_index_A link_index_B device_type_filter log_flags) tr) = 1"
  by (simp add: issued_def start_logging_def snd_bnd_silent)

lemma issued_reset_base_position:
  "issued (reset_base_position eng body_id position) tr =
     Call ''getBasePositionAndOrientation'' [PInt body_id] [] #
     (case result (get_base_orientation eng body_id) tr of
        Inl e \<Rightarrow> []
      | Inr orientation \<Rightarrow>
          [Call ''resetBasePositionAndOrientation'' [PInt body_id, position, orientation] []])"
proof (cases "get_base_orientation eng body_id tr")
  case (Pair r tr')
  have tr': "tr' = tr @ [Call ''getBasePositionAndOrientation'' [PInt body_id] []]"
    using snd_get_base_orientation [of eng body_id tr] Pair by simp
  show ?thesis
  proof (cases r)
    case (Inl e)
    with Pair tr' show ?thesis
      by (simp add: issued_def reset_base_position_def bnd_def result_def)
  next
    case (Inr orientation)
    have "snd (reset_base_pose eng body_id position orientation tr') =
            tr' @ [Call ''resetBasePositionAndOrientation'' [PInt body_id, position, orientation] []]"
      by simp
    with Pair Inr tr' show ?thesis
      by (simp add: issued_def reset_base_position_def bnd_def result_def)
  qed
qed

lemma issued_reset_base_orientation:
  "issued (reset_base_orientation eng body_id orientation) tr =
     Call ''getBasePositionAndOrientation'' [PInt body_id] [] #
     (case result (get_base_position eng body_id) tr of
        Inl e \<Rightarrow> []
      | Inr position \<Rightarrow>
          [Call ''resetBasePositionAndOrientation'' [PInt body_id, position, orientation] []])"
proof (cases "get_base_position eng body_id tr")
  case (Pair r tr')
  have tr': "tr' = tr @ [Call ''getBasePositionAndOrientation'' [PInt body_id] []]"
    using snd_get_base_position [of eng body_id tr] Pair by simp
  show ?thesis
  proof (cases r)
    case (Inl e)
    with Pair tr' show ?thesis
      by (simp add: issued_def reset_base_orientation_def bnd_def result_def)
  next
    case (Inr position)
    have "snd (reset_base_pose eng body_id position orientation tr') =
            tr' @ [Call ''resetBasePositionAndOrientation'' [PInt body_id, position, orientation] []]"
      by simp
    with Pair Inr tr' show ?thesis
      by (simp add: issued_def reset_base_orientation_def bnd_def result_def)
  qed
qed

lemma run_simps:
  "bnd f g tr = (case f tr of (Inl e, tr') \<Rightarrow> (Inl e, tr') | (Inr v, tr') \<Rightarrow> g v tr')"
  "ret v tr = (Inr v, tr)"
  "raise e tr = (Inl e, tr)"
  "lift r tr = (r, tr)"
  "sim eng c tr = (case eng tr c of Inl msg \<Rightarrow> Inl (EngineError msg) | Inr v \<Rightarrow> Inr v, tr @ [c])"
  by (simp_all add: bnd_def ret_def raise_def lift_def sim_def)

lemma demo_base_orientation:
  "get_base_orientation demo_engine 1 [] =
     (Inr (PArr [PFloat 0, PFloat 0, PFloat 0, PFloat 1]),
      [Call ''getBasePositionAndOrientation'' [PInt 1] []])"
  by (simp add: get_base_orientation_def get_base_pose_def run_simps demo_engine_def unpack_def
        vec_def seq_index_def Let_def)

lemma demo_base_position:
  "get_base_position demo_engine 1 [] =
     (Inr (PArr [PFloat 10, PFloat 20, PFloat 30]),
      [Call ''getBasePositionAndOrientation'' [PInt 1] []])"
  by (simp add: get_base_position_def get_base_pose_def run_simps demo_engine_def unpack_def
        vec_def seq_index_def Let_def)

subsection \<open>Loops and batch accessors\<close>





lemma np_array_idem [simp]: "np_array (np_array v) = np_array v"
  by (cases v) simp_all











































subsection \<open>Matrices and angles\<close>

lemma deg2rad_rad2deg [simp]: "deg2rad (rad2deg x) = x"
  by (simp add: deg2rad_def rad2deg_def)


lemma result_sim_lift:
  "result (bnd (sim eng c) (\<lambda>r. lift (g r))) tr =
     (case eng tr c of Inl msg \<Rightarrow> Inl (EngineError msg) | Inr v \<Rightarrow> g v)"
  by (simp add: result_def run_simps split: sum.splits)

lemma array_reshape44_T_flat:
  "array_reshape44_T (vec [a0, a1, a2, a3, a4, a5, a6, a7, a8, a9, a10, a11, a12, a13, a14, a15]) =
     Inr (PArr [PArr [PFloat a0, PFloat a4, PFloat a8, PFloat a12],
                PArr [PFloat a1, PFloat a5, PFloat a9, PFloat a13],
                PArr [PFloat a2, PFloat a6, PFloat a10, PFloat a14],
                PArr [PFloat a3, PFloat a7, PFloat a11, PFloat a15]])"
  by (simp add: array_reshape44_T_def reshape44_def np_T_def vec_def Let_def upt_rec)

lemma reshape44_flat:
  "reshape44 (np_array (vec [a0, a1, a2, a3, a4, a5, a6, a7, a8, a9, a10, a11, a12, a13, a14, a15])) =
     Inr (PArr [PArr [PFloat a0, PFloat a1, PFloat a2, PFloat a3],
                PArr [PFloat a4, PFloat a5, PFloat a6, PFloat a7],
                PArr [PFloat a8, PFloat a9, PFloat a10, PFloat a11],
                PArr [PFloat a12, PFloat a13, PFloat a14, PFloat a15]])"
  by (simp add: reshape44_def vec_def Let_def)

lemma np_T_44:
  "np_T (PArr [PArr [b0, b1, b2, b3], PArr [b4, b5, b6, b7],
               PArr [b8, b9, b10, b11], PArr [b12, b13, b14, b15]]) =
     PArr [PArr [b0, b4, b8, b12], PArr [b1, b5, b9, b13],
           PArr [b2, b6, b10, b14], PArr [b3, b7, b11, b15]]"
  by (simp add: np_T_def upt_rec)

lemma get_debug_visualizer_result:
  assumes "eng tr (Call ''getDebugVisualizerCamera'' [] []) =
             Inr (PSeq [width, height, view, proj, up_vec, forward_vec, horizontal, vertical,
                        yaw, pitch, distance, target])"
    and "array_reshape44_T view = Inr view'"
    and "array_reshape44_T proj = Inr proj'"
    and "np_deg2rad yaw = Inr yaw'"
    and "np_deg2rad pitch = Inr pitch'"
  shows "result (get_debug_visualizer eng) tr =
           Inr (PSeq [width, height, view', proj', np_array up_vec, np_array forward_vec,
                      np_array horizontal, np_array vertical, yaw', pitch', distance,
                      np_array target])"
  using assms by (simp add: get_debug_visualizer_def result_def run_simps unpack_def Let_def)


lemma np_deg2rad_float [simp]: "np_deg2rad (PFloat d) = Inr (PFloat (deg2rad d))"
  by (simp add: np_deg2rad_def)

lemma identity16_T: "array_reshape44_T identity16 =
  Inr (PArr [PArr [PFloat 1, PFloat 0, PFloat 0, PFloat 0],
             PArr [PFloat 0, PFloat 1, PFloat 0, PFloat 0],
             PArr [PFloat 0, PFloat 0, PFloat 1, PFloat 0],
             PArr [PFloat 0, PFloat 0, PFloat 0, PFloat 1]])"
  unfolding identity16_def by (rule array_reshape44_T_flat)




subsection \<open>Shape creation\<close>

lemma not_local_error_sim [simp]: "\<not> local_error (fst (sim eng c tr))"
  by (simp add: sim_def split: sum.splits)

lemma create_visual_shape_unrecognized:
  "\<not> recognized_shape shape_type \<Longrightarrow>
     create_visual_shape eng shape_type radius half_extents length' filename mesh_scale plane_normal
       flags rgba_color specular_color visual_frame_position vertices indices uvs normals
       visual_frame_orientation tr = (Inl (ValueError ''Unknown visual shape type.''), tr)"
  by (simp add: create_visual_shape_def recognized_shape_def Let_def raise_def)

lemmas GEOM_defs =
  GEOM_SPHERE_def GEOM_BOX_def GEOM_CAPSULE_def GEOM_CYLINDER_def GEOM_PLANE_def GEOM_MESH_def

lemma recognized_shape_cases:
  assumes "recognized_shape shape_type"
  obtains "shape_type = 2" | "shape_type = 3" | "shape_type = 7" | "shape_type = 4"
    | "shape_type = 6" | "shape_type = 5"
  using assms by (auto simp: recognized_shape_def GEOM_defs)

lemma create_visual_shape_recognized:
  assumes "recognized_shape shape_type"
  shows "\<exists>kw. create_visual_shape eng shape_type radius half_extents length' filename mesh_scale
       plane_normal flags rgba_color specular_color visual_frame_position vertices indices uvs
       normals visual_frame_orientation tr =
       sim eng (Call ''createVisualShape'' [PInt shape_type] kw) tr"
  using assms
proof (cases rule: recognized_shape_cases)
  case 1
  then show ?thesis by (simp add: create_visual_shape_def Let_def GEOM_defs) blast
next
  case 2
  then show ?thesis by (simp add: create_visual_shape_def Let_def GEOM_defs) blast
next
  case 3
  then show ?thesis by (simp add: create_visual_shape_def Let_def GEOM_defs) blast
next
  case 4
  then show ?thesis by (simp add: create_visual_shape_def Let_def GEOM_defs) blast
next
  case 5
  then show ?thesis by (simp add: create_visual_shape_def Let_def GEOM_defs) blast
next
  case 6
  then show ?thesis by (simp add: create_visual_shape_def Let_def GEOM_defs) blast
qed

lemma create_collision_shape_unrecognized:
  "\<not> recognized_shape shape_type \<Longrightarrow>
     create_collision_shape eng shape_type radius half_extents height filename mesh_scale
       plane_normal flags collision_frame_position collision_frame_orientation tr =
     (Inl (ValueError ''Unknown collision shape type.''), tr)"
  by (simp add: create_collision_shape_def recognized_shape_def Let_def raise_def)

lemma create_collision_shape_recognized:
  assumes "recognized_shape shape_type"
  shows "\<exists>kw. create_collision_shape eng shape_type radius half_extents height filename mesh_scale
       plane_normal flags collision_frame_position collision_frame_orientation tr =
       sim eng (Call ''createCollisionShape'' [PInt shape_type] kw) tr"
  using assms
proof (cases rule: recognized_shape_cases)
  case 1
  then show ?thesis by (simp add: create_collision_shape_def Let_def GEOM_defs) blast
next
  case 2
  then show ?thesis by (simp add: create_collision_shape_def Let_def GEOM_defs) blast
next
  case 3
  then show ?thesis by (simp add: create_collision_shape_def Let_def GEOM_defs) blast
next
  case 4
  then show ?thesis by (simp add: create_collision_shape_def Let_def GEOM_defs) blast
next
  case 5
  then show ?thesis by (simp add: create_collision_shape_def Let_def GEOM_defs) blast
next
  case 6
  then show ?thesis by (simp add: create_collision_shape_def Let_def GEOM_defs) blast
qed


section \<open>Claim C1: structured setters forward exactly the supplied parameters\<close>

lemma keys_Nil: "keys [] = {}" by (simp add: keys_def)

lemma keys_put: "keys (put n x c kw) = keys kw \<union> name_if (x \<noteq> None) n"
  by (cases x) (auto simp: put_def keys_def dom_update name_if_def)

lemma supplied_Nil: "supplied [] = {}" by (simp add: supplied_def)

lemma supplied_Cons: "supplied ((n, b) # ps) = name_if b n \<union> supplied ps"
  by (auto simp: supplied_def name_if_def)

lemma issued_sim_ret:
  "issued (bnd (sim eng c) (\<lambda>_. ret v)) tr = [c]"
  by (simp add: issued_def bnd_def sim_def ret_def split: sum.splits)

lemma phys_keys:
  "keys (set_physics_properties_kwargs time_step num_solver_iterations use_split_impulse
     split_impulse_penetration_threshold num_sub_steps collision_filter_mode
     contact_breaking_threshold max_num_cmd_per_1ms enable_file_caching
     restitution_velocity_threshold erp contact_erp friction_erp enable_cone_friction
     deterministic_overlapping_pairs solver_residual_threshold) =
   supplied [(''fixedTimeStep'', time_step \<noteq> None),
     (''numSolverIterations'', num_solver_iterations \<noteq> None),
     (''useSplitImpulse'', use_split_impulse \<noteq> None),
     (''splitImpulsePenetrationThreshold'', split_impulse_penetration_threshold \<noteq> None),
     (''numSubSteps'', num_sub_steps \<noteq> None),
     (''collisionFilterMode'', collision_filter_mode \<noteq> None),
     (''contactBreakingThreshold'', contact_breaking_threshold \<noteq> None),
     (''maxNumCmdPer1ms'', max_num_cmd_per_1ms \<noteq> None),
     (''enableFileCaching'', enable_file_caching \<noteq> None),
     (''restitutionVelocityThreshold'', restitution_velocity_threshold \<noteq> None),
     (''erp'', erp \<noteq> None),
     (''contactERP'', contact_erp \<noteq> None),
     (''frictionERP'', friction_erp \<noteq> None),
     (''enableConeFriction'', enable_cone_friction \<noteq> None),
     (''deterministicOverlappingPairs'', deterministic_overlapping_pairs \<noteq> None),
     (''solverResidualThreshold'', solver_residual_threshold \<noteq> None)]"
  unfolding set_physics_properties_kwargs_def Let_def
  by (simp only: keys_put keys_Nil supplied_Cons supplied_Nil Un_assoc Un_empty_left Un_empty_right)


lemma start_logging_keys:
  "keys (start_logging_kwargs object_unique_ids max_log_dof body_unique_id_A body_unique_id_B
     link_index_A link_index_B device_type_filter log_flags) =
   supplied [(''objectUniqueIds'', object_unique_ids \<noteq> None),
     (''maxLogDof'', max_log_dof \<noteq> None),
     (''bodyUniqueIdA'', body_unique_id_A \<noteq> None),
     (''bodyUniqueIdB'', body_unique_id_B \<noteq> None),
     (''linkIndexA'', link_index_A \<noteq> None),
     (''linkIndexB'', link_index_B \<noteq> None),
     (''deviceTypeFilter'', device_type_filter \<noteq> None),
     (''logFlags'', log_flags \<noteq> None)]"
  unfolding start_logging_kwargs_def Let_def
  by (simp only: keys_put keys_Nil supplied_Cons supplied_Nil Un_assoc Un_empty_left Un_empty_right)

lemma change_constraint_keys:
  "keys (change_constraint_kwargs child_joint_pivot child_frame_orientation max_force gear_ratio
     gear_auxiliary_link relative_position_target erp) =
   supplied [(''jointChildPivot'', child_joint_pivot \<noteq> None),
     (''jointChildFrameOrientation'', child_frame_orientation \<noteq> None),
     (''maxForce'', max_force \<noteq> None),
     (''gearRatio'', gear_ratio \<noteq> None),
     (''gearAuxLink'', gear_auxiliary_link \<noteq> None),
     (''relativePositionTarget'', relative_position_target \<noteq> None),
     (''erp'', erp \<noteq> None)]"
  unfolding change_constraint_kwargs_def Let_def
  by (simp only: keys_put keys_Nil supplied_Cons supplied_Nil Un_assoc Un_empty_left Un_empty_right)

lemma change_visual_shape_keys:
  "keys (change_visual_shape_kwargs shape_id texture_id rgba_color specular_color) =
   supplied [(''shapeIndex'', shape_id \<noteq> None),
     (''textureUniqueId'', texture_id \<noteq> None),
     (''rgbaColor'', rgba_color \<noteq> None),
     (''specularColor'', specular_color \<noteq> None)]"
  unfolding change_visual_shape_kwargs_def Let_def
  by (simp only: keys_put keys_Nil supplied_Cons supplied_Nil Un_assoc Un_empty_left Un_empty_right)

lemma change_dynamics_keys:
  "keys (change_dynamics_kwargs mass lateral_friction spinning_friction rolling_friction restitution
     linear_damping angular_damping contact_stiffness contact_damping friction_anchor
     local_inertia_diagonal joint_damping) =
   supplied [(''mass'', mass \<noteq> None),
     (''lateralFriction'', lateral_friction \<noteq> None),
     (''spinningFriction'', spinning_friction \<noteq> None),
     (''rollingFriction'', rolling_friction \<noteq> None),
     (''restitution'', restitution \<noteq> None),
     (''linearDamping'', linear_damping \<noteq> None),
     (''angularDamping'', angular_damping \<noteq> None),
     (''contactStiffness'', contact_stiffness \<noteq> None),
     (''contactDamping'', contact_damping \<noteq> None),
     (''frictionAnchor'', friction_anchor \<noteq> None),
     (''localInertiaDiagonal'', local_inertia_diagonal \<noteq> None),
     (''jointDamping'', joint_damping \<noteq> None)]"
  unfolding change_dynamics_kwargs_def Let_def
  by (simp only: keys_put keys_Nil supplied_Cons supplied_Nil Un_assoc Un_empty_left Un_empty_right)

text \<open>
  Claim C1. For each structured setter (\<open>set_physics_properties\<close>,
  \<open>change_dynamics\<close>, \<open>change_visual_shape\<close>, \<open>change_constraint\<close>,
  \<open>start_logging\<close>), whatever subset of its optional parameters the caller supplies,
  the operation issues one engine call whose keyword names are exactly the engine-side
  names of the supplied parameters: a parameter left at \<open>None\<close> is absent.
\<close>

theorem setters_forward_exactly_supplied:
  "forwarded (set_physics_properties eng time_step num_solver_iterations use_split_impulse
      split_impulse_penetration_threshold num_sub_steps collision_filter_mode
      contact_breaking_threshold max_num_cmd_per_1ms enable_file_caching
      restitution_velocity_threshold erp contact_erp friction_erp enable_cone_friction
      deterministic_overlapping_pairs solver_residual_threshold) tr =
     [(''setPhysicsEngineParameter'',
       supplied [(''fixedTimeStep'', time_step \<noteq> None),
         (''numSolverIterations'', num_solver_iterations \<noteq> None),
         (''useSplitImpulse'', use_split_impulse \<noteq> None),
         (''splitImpulsePenetrationThreshold'', split_impulse_penetration_threshold \<noteq> None),
         (''numSubSteps'', num_sub_steps \<noteq> None),
         (''collisionFilterMode'', collision_filter_mode \<noteq> None),
         (''contactBreakingThreshold'', contact_breaking_threshold \<noteq> None),
         (''maxNumCmdPer1ms'', max_num_cmd_per_1ms \<noteq> None),
         (''enableFileCaching'', enable_file_caching \<noteq> None),
         (''restitutionVelocityThreshold'', restitution_velocity_threshold \<noteq> None),
         (''erp'', erp \<noteq> None),
         (''contactERP'', contact_erp \<noteq> None),
         (''frictionERP'', friction_erp \<noteq> None),
         (''enableConeFriction'', enable_cone_friction \<noteq> None),
         (''deterministicOverlappingPairs'', deterministic_overlapping_pairs \<noteq> None),
         (''solverResidualThreshold'', solver_residual_threshold \<noteq> None)])]
   \<and> forwarded (change_dynamics eng body_id link_id mass lateral_friction spinning_friction
      rolling_friction restitution linear_damping angular_damping contact_stiffness
      contact_damping friction_anchor local_inertia_diagonal joint_damping) tr =
     [(''changeDynamics'',
       supplied [(''mass'', mass \<noteq> None),
         (''lateralFriction'', lateral_friction \<noteq> None),
         (''spinningFriction'', spinning_friction \<noteq> None),
         (''rollingFriction'', rolling_friction \<noteq> None),
         (''restitution'', restitution \<noteq> None),
         (''linearDamping'', linear_damping \<noteq> None),
         (''angularDamping'', angular_damping \<noteq> None),
         (''contactStiffness'', contact_stiffness \<noteq> None),
         (''contactDamping'', contact_damping \<noteq> None),
         (''frictionAnchor'', friction_anchor \<noteq> None),
         (''localInertiaDiagonal'', local_inertia_diagonal \<noteq> None),
         (''jointDamping'', joint_damping \<noteq> None)])]
   \<and> forwarded (change_visual_shape eng object_id link_id shape_id texture_id rgba_color
      specular_color) tr =
     [(''changeVisualShape'',
       supplied [(''shapeIndex'', shape_id \<noteq> None),
         (''textureUniqueId'', texture_id \<noteq> None),
         (''rgbaColor'', rgba_color \<noteq> None),
         (''specularColor'', specular_color \<noteq> None)])]
   \<and> forwarded (change_constraint eng constraint_id child_joint_pivot child_frame_orientation
      max_force gear_ratio gear_auxiliary_link relative_position_target erp) tr =
     [(''changeConstraint'',
       supplied [(''jointChildPivot'', child_joint_pivot \<noteq> None),
         (''jointChildFrameOrientation'', child_frame_orientation \<noteq> None),
         (''maxForce'', max_force \<noteq> None),
         (''gearRatio'', gear_ratio \<noteq> None),
         (''gearAuxLink'', gear_auxiliary_link \<noteq> None),
         (''relativePositionTarget'', relative_position_target \<noteq> None),
         (''erp'', erp \<noteq> None)])]
   \<and> forwarded (start_logging eng logging_type filename object_unique_ids max_log_dof
      body_unique_id_A body_unique_id_B link_index_A link_index_B device_type_filter log_flags) tr =
     [(''startStateLogging'',
       supplied [(''objectUniqueIds'', object_unique_ids \<noteq> None),
         (''maxLogDof'', max_log_dof \<noteq> None),
         (''bodyUniqueIdA'', body_unique_id_A \<noteq> None),
         (''bodyUniqueIdB'', body_unique_id_B \<noteq> None),
         (''linkIndexA'', link_index_A \<noteq> None),
         (''linkIndexB'', link_index_B \<noteq> None),
         (''deviceTypeFilter'', device_type_filter \<noteq> None),
         (''logFlags'', log_flags \<noteq> None)])]"
  unfolding forwarded_def set_physics_properties_def change_dynamics_def change_visual_shape_def
    change_constraint_def start_logging_def issued_sim_ret
  by (simp only: list.map call.sel phys_keys change_dynamics_keys change_visual_shape_keys
        change_constraint_keys start_logging_keys simp_thms)

theorem setters_forward_exactly_supplied_witness:
  "forwarded (set_physics_properties null_engine (Some (1 / 240)) None None None (Some 4) None
      None None None None None None None (Some True) None None) [] =
     [(''setPhysicsEngineParameter'', {''fixedTimeStep'', ''numSubSteps'', ''enableConeFriction''})]
   \<and> forwarded (change_dynamics null_engine 1 (- 1) (Some 2) None None None None None None None
      None None None None) [] = [(''changeDynamics'', {''mass''})]
   \<and> forwarded (change_visual_shape null_engine 1 (- 1) None None (Some [1, 0, 0, 1]) None) [] =
     [(''changeVisualShape'', {''rgbaColor''})]
   \<and> forwarded (change_constraint null_engine 3 None None (Some 50) None None None None) [] =
     [(''changeConstraint'', {''maxForce''})]
   \<and> forwarded (start_logging null_engine 1 ''log.bin'' None None None None None None None None) [] =
     [(''startStateLogging'', {})]"
  using setters_forward_exactly_supplied [where eng = null_engine and tr = "[]"
      and time_step = "Some (1 / 240)" and num_solver_iterations = None
      and use_split_impulse = None and split_impulse_penetration_threshold = None
      and num_sub_steps = "Some 4" and collision_filter_mode = None
      and contact_breaking_threshold = None and max_num_cmd_per_1ms = None
      and enable_file_caching = None and restitution_velocity_threshold = None
      and erp = None and contact_erp = None and friction_erp = None
      and enable_cone_friction = "Some True" and deterministic_overlapping_pairs = None
      and solver_residual_threshold = None
      and body_id = 1 and link_id = "- 1" and mass = "Some 2" and lateral_friction = None
      and spinning_friction = None and rolling_friction = None and restitution = None
      and linear_damping = None and angular_damping = None and contact_stiffness = None
      and contact_damping = None and friction_anchor = None and local_inertia_diagonal = None
      and joint_damping = None
      and object_id = 1 and shape_id = None and texture_id = None
      and rgba_color = "Some [1, 0, 0, 1]" and specular_color = None
      and constraint_id = 3 and child_joint_pivot = None and child_frame_orientation = None
      and max_force = "Some 50" and gear_ratio = None and gear_auxiliary_link = None
      and relative_position_target = None
      and logging_type = 1 and filename = "''log.bin''" and object_unique_ids = None
      and max_log_dof = None and body_unique_id_A = None and body_unique_id_B = None
      and link_index_A = None and link_index_B = None and device_type_filter = None
      and log_flags = None]
  by (auto simp: supplied_def)

section \<open>Claim C2: engine calls per operation\<close>

text \<open>
  Claim C2 says that every public operation issues exactly one engine call. It fails on
  \<open>reset_base_position\<close>, which reads the base pose and then resets it: two calls.
\<close>

theorem reset_base_position_issues_two_calls:
  "issued (reset_base_position demo_engine 1 (vec [0, 0, 1])) [] =
     [Call ''getBasePositionAndOrientation'' [PInt 1] [],
      Call ''resetBasePositionAndOrientation''
        [PInt 1, vec [0, 0, 1], PArr [PFloat 0, PFloat 0, PFloat 0, PFloat 1]] []]
   \<and> length (issued (reset_base_position demo_engine 1 (vec [0, 0, 1])) []) \<noteq> 1"
  by (simp add: issued_reset_base_position result_def demo_base_orientation)


text \<open>
  \<open>set_joint_velocities\<close> has neither \<open>return\<close> nor \<open>else\<close> after its calls, so
  each of its branches falls through to the next call. On an engine that answers every
  call it issues four, two, two or one call.
\<close>

lemma set_joint_velocities_calls:
  "map call_name (issued (set_joint_velocities null_engine 1 (One 0) (PFloat 1) PNone) []) =
     [''setJointMotorControl2'', ''setJointMotorControl2'',
      ''setJointMotorControlArray'', ''setJointMotorControlArray'']"
  "map call_name (issued (set_joint_velocities null_engine 1 (One 0) (PFloat 1) (PFloat 5)) []) =
     [''setJointMotorControl2'', ''setJointMotorControlArray'']"
  "map call_name (issued (set_joint_velocities null_engine 1 (Many [0, 1]) (vec [1, 1]) PNone) []) =
     [''setJointMotorControlArray'', ''setJointMotorControlArray'']"
  "map call_name (issued (set_joint_velocities null_engine 1 (Many [0, 1]) (vec [1, 1]) (vec [5, 5])) []) =
     [''setJointMotorControlArray'']"
  by (simp_all add: set_joint_velocities_def issued_def run_simps null_engine_def vec_def)



text \<open>
  Claim C2, amended. Each direct forwarding operation issues exactly one engine call per
  invocation, whatever the engine answers. The composite operations
  \<open>reset_base_position\<close> and \<open>reset_base_orientation\<close> first read the base pose
  and, when that read gives a pose, issue the reset as a second call.
\<close>

theorem forwarding_operations_issue_one_call:
  "list_all (\<lambda>f. length (issued f tr) = 1)
     [reset eng,
      set_time_step eng time_step,
      stop_logging eng logger_id,
      set_physics_properties eng time_step' num_solver_iterations use_split_impulse
        split_impulse_penetration_threshold num_sub_steps collision_filter_mode
        contact_breaking_threshold max_num_cmd_per_1ms enable_file_caching
        restitution_velocity_threshold erp contact_erp friction_erp enable_cone_friction
        deterministic_overlapping_pairs solver_residual_threshold,
      change_dynamics eng body_id link_id mass lateral_friction spinning_friction
        rolling_friction restitution linear_damping angular_damping contact_stiffness
        contact_damping friction_anchor local_inertia_diagonal joint_damping,
      change_visual_shape eng object_id link_id shape_id texture_id rgba_color specular_color,
      change_constraint eng constraint_id child_joint_pivot child_frame_orientation
        max_force gear_ratio gear_auxiliary_link relative_position_target erp,
      start_logging eng logging_type filename object_unique_ids max_log_dof
        body_unique_id_A body_unique_id_B link_index_A link_index_B device_type_filter log_flags,
      get_base_pose eng body_id,
      get_base_position eng body_id,
      get_base_orientation eng body_id,
      get_base_velocity eng body_id,
      reset_base_pose eng body_id position orientation,
      set_joint_motor_control eng body_id joint_id control_mode target kp_velocity force kp kd
        max_velocity,
      set_joint_motor_control_array eng body_id js control_mode positions velocities forces kps kds,
      set_joint_positions eng body_id joint_ids positions velocities kps kds forces,
      get_joint_positions eng body_id joint_ids,
      compute_view_matrix eng eye_position target_position up_vector,
      compute_view_matrix_from_ypr eng target_position distance yaw pitch roll up_axis_index,
      compute_projection_matrix eng left right bottom top' near far,
      compute_projection_matrix_fov eng fov aspect near far,
      get_debug_visualizer eng,
      reset_debug_visualizer eng distance yaw pitch target_position,
      load_urdf eng filename position orientation use_maximal_coordinates use_fixed_base flags scale,
      create_body eng visual_shape_id collision_shape_id base_mass position orientation]
   \<and> issued (reset_base_position eng body_id position) tr =
       Call ''getBasePositionAndOrientation'' [PInt body_id] [] #
       (case result (get_base_orientation eng body_id) tr of
          Inl e \<Rightarrow> []
        | Inr current \<Rightarrow>
            [Call ''resetBasePositionAndOrientation'' [PInt body_id, position, current] []])
   \<and> issued (reset_base_orientation eng body_id orientation) tr =
       Call ''getBasePositionAndOrientation'' [PInt body_id] [] #
       (case result (get_base_position eng body_id) tr of
          Inl e \<Rightarrow> []
        | Inr current \<Rightarrow>
            [Call ''resetBasePositionAndOrientation'' [PInt body_id, current, orientation] []])"
  by (simp add: issued_reset issued_set_time_step issued_stop_logging
        length_issued_set_physics_properties length_issued_change_dynamics
        length_issued_change_visual_shape length_issued_change_constraint
        length_issued_start_logging issued_get_base_pose issued_get_base_position
        issued_get_base_orientation issued_get_base_velocity issued_reset_base_pose
        length_issued_set_joint_motor_control length_issued_set_joint_motor_control_array
        length_issued_set_joint_positions length_issued_get_joint_positions
        length_issued_compute_view_matrix length_issued_compute_view_matrix_from_ypr
        length_issued_compute_projection_matrix length_issued_compute_projection_matrix_fov
        length_issued_get_debug_visualizer length_issued_reset_debug_visualizer
        length_issued_load_urdf length_issued_create_body
        issued_reset_base_position issued_reset_base_orientation)

theorem forwarding_operations_issue_one_call_witness:
  "length (issued (reset demo_engine) []) = 1
   \<and> length (issued (get_joint_positions demo_engine 1 (Many [0, 1])) []) = 1
   \<and> length (issued (reset_base_pose demo_engine 1 (vec [0, 0, 1]) (vec [0, 0, 0, 1])) []) = 1
   \<and> length (issued (reset_base_position demo_engine 1 (vec [0, 0, 1])) []) = 2
   \<and> issued (reset_base_orientation demo_engine 1 (vec [0, 0, 0, 1])) [] =
       [Call ''getBasePositionAndOrientation'' [PInt 1] [],
        Call ''resetBasePositionAndOrientation''
          [PInt 1, PArr [PFloat 10, PFloat 20, PFloat 30], vec [0, 0, 0, 1]] []]"
proof -
  have "list_all (\<lambda>f. length (issued f []) = 1)
     [reset demo_engine,
      set_time_step demo_engine (1 / 240),
      stop_logging demo_engine 7,
      set_physics_properties demo_engine None None None None None None None None None None None
        None None None None None,
      change_dynamics demo_engine 1 0 None None None None None None None None None None None None,
      change_visual_shape demo_engine 1 0 None None None None,
      change_constraint demo_engine 1 None None None None None None None,
      start_logging demo_engine 1 ''robot.urdf'' None None None None None None None None,
      get_base_pose demo_engine 1,
      get_base_position demo_engine 1,
      get_base_orientation demo_engine 1,
      get_base_velocity demo_engine 1,
      reset_base_pose demo_engine 1 (vec [0, 0, 1]) (vec [0, 0, 0, 1]),
      set_joint_motor_control demo_engine 1 0 POSITION_CONTROL (PFloat 1) PNone PNone PNone PNone
        PNone,
      set_joint_motor_control_array demo_engine 1 [0, 1] POSITION_CONTROL (vec [1, 1]) PNone PNone
        PNone PNone,
      set_joint_positions demo_engine 1 (Many [0, 1]) (vec [1, 1]) PNone PNone PNone PNone,
      get_joint_positions demo_engine 1 (Many [0, 1]),
      compute_view_matrix demo_engine (vec [1, 0, 0]) (vec [0, 0, 0]) (vec [0, 0, 1]),
      compute_view_matrix_from_ypr demo_engine (vec [0, 0, 0]) 2 0 0 0 2,
      compute_projection_matrix demo_engine 0 1 0 1 1 10,
      compute_projection_matrix_fov demo_engine 60 1 1 10,
      get_debug_visualizer demo_engine,
      reset_debug_visualizer demo_engine 2 0 0 (vec [0, 0, 0]),
      load_urdf demo_engine ''robot.urdf'' (vec [0, 0, 1]) (vec [0, 0, 0, 1]) 0 False 0 1,
      create_body demo_engine 0 0 (PFloat 1) (vec [0, 0, 1]) (vec [0, 0, 0, 1])]
   \<and> issued (reset_base_position demo_engine 1 (vec [0, 0, 1])) [] =
       Call ''getBasePositionAndOrientation'' [PInt 1] [] #
       (case result (get_base_orientation demo_engine 1) [] of
          Inl e \<Rightarrow> []
        | Inr current \<Rightarrow>
            [Call ''resetBasePositionAndOrientation'' [PInt 1, vec [0, 0, 1], current] []])
   \<and> issued (reset_base_orientation demo_engine 1 (vec [0, 0, 0, 1])) [] =
       Call ''getBasePositionAndOrientation'' [PInt 1] [] #
       (case result (get_base_position demo_engine 1) [] of
          Inl e \<Rightarrow> []
        | Inr current \<Rightarrow>
            [Call ''resetBasePositionAndOrientation'' [PInt 1, current, vec [0, 0, 0, 1]] []])"
    by (rule forwarding_operations_issue_one_call)
  then show ?thesis
    by (simp add: result_def demo_base_orientation demo_base_position)
qed

section \<open>Claim C3: batch accessors, single identifier and list\<close>



section \<open>Claim C4: angles are radians at the boundary\<close>




section \<open>Claim C5: matrices are reshaped, then transposed\<close>

text \<open>
  Claim C5. Every matrix-returning operation (\<open>compute_view_matrix\<close>,
  \<open>compute_view_matrix_from_ypr\<close>, \<open>compute_projection_matrix\<close>,
  \<open>compute_projection_matrix_fov\<close>, \<open>get_debug_visualizer\<close>) returns
  \<open>np.array(m).reshape(4, 4).T\<close> of the engine's answer \<open>m\<close>. For a flat list of
  16 floats that is the 4x4 array whose transpose is the list reshaped row-major.
\<close>

theorem matrices_reshaped_then_transposed:
  "result (compute_view_matrix eng eye_position target_position up_vector) tr =
     (case eng tr (Call ''computeViewMatrix'' []
                    [(''eyePosition'', eye_position), (''targetPosition'', target_position),
                     (''upVector'', up_vector)]) of
        Inl msg \<Rightarrow> Inl (EngineError msg) | Inr view \<Rightarrow> array_reshape44_T view)
   \<and> result (compute_view_matrix_from_ypr eng target_position distance yaw pitch roll up_axis_index) tr =
     (case eng tr (Call ''computeViewMatrixFromYawPitchRoll'' []
                    [(''targetPosition'', target_position), (''distance'', PFloat distance),
                     (''yaw'', PFloat (rad2deg yaw)), (''pitch'', PFloat (rad2deg pitch)),
                     (''roll'', PFloat (rad2deg roll)), (''upAxisIndex'', PInt up_axis_index)]) of
        Inl msg \<Rightarrow> Inl (EngineError msg) | Inr view \<Rightarrow> array_reshape44_T view)
   \<and> result (compute_projection_matrix eng left right bottom top' near far) tr =
     (case eng tr (Call ''computeProjectionMatrix''
                    [PFloat left, PFloat right, PFloat bottom, PFloat top', PFloat near, PFloat far] []) of
        Inl msg \<Rightarrow> Inl (EngineError msg) | Inr proj \<Rightarrow> array_reshape44_T proj)
   \<and> result (compute_projection_matrix_fov eng fov aspect near far) tr =
     (case eng tr (Call ''computeProjectionMatrixFOV''
                    [PFloat fov, PFloat aspect, PFloat near, PFloat far] []) of
        Inl msg \<Rightarrow> Inl (EngineError msg) | Inr proj \<Rightarrow> array_reshape44_T proj)
   \<and> (eng tr (Call ''getDebugVisualizerCamera'' [] []) =
         Inr (PSeq [width, height, view, proj, up_vec, forward_vec, horizontal, vertical,
                    cam_yaw, cam_pitch, cam_distance, cam_target]) \<longrightarrow>
       array_reshape44_T view = Inr view' \<longrightarrow> array_reshape44_T proj = Inr proj' \<longrightarrow>
       np_deg2rad cam_yaw = Inr yaw' \<longrightarrow> np_deg2rad cam_pitch = Inr pitch' \<longrightarrow>
       result (get_debug_visualizer eng) tr =
         Inr (PSeq [width, height, view', proj', np_array up_vec, np_array forward_vec,
                    np_array horizontal, np_array vertical, yaw', pitch', cam_distance,
                    np_array cam_target]))
   \<and> (eng tr (Call ''computeViewMatrix'' []
                [(''eyePosition'', eye_position), (''targetPosition'', target_position),
                 (''upVector'', up_vector)]) =
         Inr (vec [a0, a1, a2, a3, a4, a5, a6, a7, a8, a9, a10, a11, a12, a13, a14, a15]) \<longrightarrow>
       result (compute_view_matrix eng eye_position target_position up_vector) tr =
         Inr (PArr [PArr [PFloat a0, PFloat a4, PFloat a8, PFloat a12],
                    PArr [PFloat a1, PFloat a5, PFloat a9, PFloat a13],
                    PArr [PFloat a2, PFloat a6, PFloat a10, PFloat a14],
                    PArr [PFloat a3, PFloat a7, PFloat a11, PFloat a15]]))
   \<and> array_reshape44_T
         (vec [a0, a1, a2, a3, a4, a5, a6, a7, a8, a9, a10, a11, a12, a13, a14, a15]) =
       Inr (PArr [PArr [PFloat a0, PFloat a4, PFloat a8, PFloat a12],
                  PArr [PFloat a1, PFloat a5, PFloat a9, PFloat a13],
                  PArr [PFloat a2, PFloat a6, PFloat a10, PFloat a14],
                  PArr [PFloat a3, PFloat a7, PFloat a11, PFloat a15]])
   \<and> Inr (np_T (PArr [PArr [PFloat a0, PFloat a4, PFloat a8, PFloat a12],
                       PArr [PFloat a1, PFloat a5, PFloat a9, PFloat a13],
                       PArr [PFloat a2, PFloat a6, PFloat a10, PFloat a14],
                       PArr [PFloat a3, PFloat a7, PFloat a11, PFloat a15]])) =
       reshape44 (np_array
         (vec [a0, a1, a2, a3, a4, a5, a6, a7, a8, a9, a10, a11, a12, a13, a14, a15]))"
proof -
  note get_debug_visualizer_result [of eng tr width height view proj up_vec forward_vec
    horizontal vertical cam_yaw cam_pitch cam_distance cam_target view' proj' yaw' pitch']
  then show ?thesis
    by (simp add: compute_view_matrix_def compute_view_matrix_from_ypr_def
          compute_projection_matrix_def compute_projection_matrix_fov_def
          result_sim_lift array_reshape44_T_flat reshape44_flat np_T_44)
qed


theorem matrices_reshaped_then_transposed_witness:
  "result (compute_view_matrix demo_engine (vec [1, 0, 0]) (vec [0, 0, 0]) (vec [0, 0, 1])) [] =
     Inr (PArr [PArr [PFloat 1, PFloat 5, PFloat 9, PFloat 13],
                PArr [PFloat 2, PFloat 6, PFloat 10, PFloat 14],
                PArr [PFloat 3, PFloat 7, PFloat 11, PFloat 15],
                PArr [PFloat 4, PFloat 8, PFloat 12, PFloat 16]])
   \<and> py_index (PArr [PArr [PFloat 1, PFloat 5, PFloat 9, PFloat 13],
                      PArr [PFloat 2, PFloat 6, PFloat 10, PFloat 14],
                      PArr [PFloat 3, PFloat 7, PFloat 11, PFloat 15],
                      PArr [PFloat 4, PFloat 8, PFloat 12, PFloat 16]]) 0 =
       Inr (PArr [PFloat 1, PFloat 5, PFloat 9, PFloat 13])
   \<and> result (get_debug_visualizer camera_engine) [] =
       Inr (PSeq [PInt 640, PInt 480, identity44, identity44,
                  PArr [PFloat 0, PFloat 0, PFloat 1], PArr [PFloat 1, PFloat 0, PFloat 0],
                  PArr [PFloat 0, PFloat 1, PFloat 0], PArr [PFloat 0, PFloat 0, PFloat 1],
                  PFloat 0, PFloat 0, PFloat 1, PArr [PFloat 0, PFloat 0, PFloat 0]])"
proof -
  have t: "array_reshape44_T identity16 = Inr identity44"
    by (simp add: identity16_T identity44_def)
  have cam: "result (get_debug_visualizer camera_engine) [] =
       Inr (PSeq [PInt 640, PInt 480, identity44, identity44,
                  np_array (vec [0, 0, 1]), np_array (vec [1, 0, 0]),
                  np_array (vec [0, 1, 0]), np_array (vec [0, 0, 1]),
                  PFloat (deg2rad 0), PFloat (deg2rad 0), PFloat 1, np_array (vec [0, 0, 0])])"
    by (rule matrices_reshaped_then_transposed [where eng = camera_engine and tr = "[]"
          and view = identity16 and proj = identity16
          and cam_yaw = "PFloat 0" and cam_pitch = "PFloat 0",
          THEN conjunct2, THEN conjunct2, THEN conjunct2, THEN conjunct2, THEN conjunct1,
          rule_format])
       (simp_all add: camera_engine_def kw_get_def t)
  have "result (compute_view_matrix demo_engine (vec [1, 0, 0]) (vec [0, 0, 0]) (vec [0, 0, 1])) [] =
     Inr (PArr [PArr [PFloat 1, PFloat 5, PFloat 9, PFloat 13],
                PArr [PFloat 2, PFloat 6, PFloat 10, PFloat 14],
                PArr [PFloat 3, PFloat 7, PFloat 11, PFloat 15],
                PArr [PFloat 4, PFloat 8, PFloat 12, PFloat 16]])"
    by (rule matrices_reshaped_then_transposed [THEN conjunct2, THEN conjunct2, THEN conjunct2,
          THEN conjunct2, THEN conjunct2, THEN conjunct1, rule_format])
       (simp add: demo_engine_def)
  with cam show ?thesis by (simp add: seq_index_def vec_def deg2rad_def)
qed

section \<open>Claim C6: validation of the shape kind\<close>

text \<open>
  Claim C6 says that the check of the shape kind is the only validation of the adapter.
  It is not: \<open>set_joint_accelerations\<close> raises \<open>ValueError\<close> itself, before any
  engine call, when the accelerations and the joints differ in number.
\<close>

theorem set_joint_accelerations_validates_lengths:
  "set_joint_accelerations_check (Many [0, 1]) (vec [1]) =
     Inl (ValueError ''Expecting the desired accelerations to be of the same size as the number of joints'')
   \<and> local_error (set_joint_accelerations_check (Many [0, 1]) (vec [1]))"
  by (simp add: set_joint_accelerations_check_def vec_def)


text \<open>
  Claim C6, amended. \<open>create_visual_shape\<close> and \<open>create_collision_shape\<close> raise
  an exception of their own exactly when \<open>shape_type\<close> is none of the six recognized
  kinds, and then it is \<open>ValueError\<close> with no engine call issued; for a recognized kind
  they are one call of the engine's creation method on that kind, whose answer or
  exception comes back unchanged.
\<close>

theorem shape_creation_validates_kind:
  "(local_error (result (create_visual_shape eng shape_type radius half_extents length' filename
       mesh_scale plane_normal flags rgba_color specular_color visual_frame_position vertices
       indices uvs normals visual_frame_orientation) tr) \<longleftrightarrow> \<not> recognized_shape shape_type)
   \<and> (\<not> recognized_shape shape_type \<longrightarrow>
        create_visual_shape eng shape_type radius half_extents length' filename mesh_scale
          plane_normal flags rgba_color specular_color visual_frame_position vertices indices uvs
          normals visual_frame_orientation tr =
        (Inl (ValueError ''Unknown visual shape type.''), tr))
   \<and> (recognized_shape shape_type \<longrightarrow>
        (\<exists>kw. create_visual_shape eng shape_type radius half_extents length' filename mesh_scale
           plane_normal flags rgba_color specular_color visual_frame_position vertices indices uvs
           normals visual_frame_orientation tr =
           sim eng (Call ''createVisualShape'' [PInt shape_type] kw) tr))
   \<and> (local_error (result (create_collision_shape eng shape_type radius half_extents height
       filename mesh_scale plane_normal flags collision_frame_position
       collision_frame_orientation) tr) \<longleftrightarrow> \<not> recognized_shape shape_type)
   \<and> (\<not> recognized_shape shape_type \<longrightarrow>
        create_collision_shape eng shape_type radius half_extents height filename mesh_scale
          plane_normal flags collision_frame_position collision_frame_orientation tr =
        (Inl (ValueError ''Unknown collision shape type.''), tr))
   \<and> (recognized_shape shape_type \<longrightarrow>
        (\<exists>kw. create_collision_shape eng shape_type radius half_extents height filename mesh_scale
           plane_normal flags collision_frame_position collision_frame_orientation tr =
           sim eng (Call ''createCollisionShape'' [PInt shape_type] kw) tr))"
proof (cases "recognized_shape shape_type")
  case True
  from create_visual_shape_recognized [OF True, of eng radius half_extents length' filename
    mesh_scale plane_normal flags rgba_color specular_color visual_frame_position vertices
    indices uvs normals visual_frame_orientation tr]
  obtain kw where v: "create_visual_shape eng shape_type radius half_extents length' filename
       mesh_scale plane_normal flags rgba_color specular_color visual_frame_position vertices
       indices uvs normals visual_frame_orientation tr =
       sim eng (Call ''createVisualShape'' [PInt shape_type] kw) tr"
    by blast
  from create_collision_shape_recognized [OF True, of eng radius half_extents height filename
    mesh_scale plane_normal flags collision_frame_position collision_frame_orientation tr]
  obtain kw' where c: "create_collision_shape eng shape_type radius half_extents height filename
       mesh_scale plane_normal flags collision_frame_position collision_frame_orientation tr =
       sim eng (Call ''createCollisionShape'' [PInt shape_type] kw') tr"
    by blast
  have "\<not> local_error (result (create_visual_shape eng shape_type radius half_extents length'
       filename mesh_scale plane_normal flags rgba_color specular_color visual_frame_position
       vertices indices uvs normals visual_frame_orientation) tr)"
    unfolding result_def v by simp
  moreover have "\<not> local_error (result (create_collision_shape eng shape_type radius
       half_extents height filename mesh_scale plane_normal flags collision_frame_position
       collision_frame_orientation) tr)"
    unfolding result_def c by simp
  ultimately show ?thesis using True v c by blast
next
  case False
  then show ?thesis
    by (simp add: result_def create_visual_shape_unrecognized create_collision_shape_unrecognized)
qed

theorem shape_creation_validates_kind_witness:
  "recognized_shape 2 \<and> \<not> recognized_shape 9
   \<and> create_collision_shape demo_engine 9 (1 / 2) [1, 1, 1] 1 None [1, 1, 1] [0, 0, 1] (- 1)
        None None [] = (Inl (ValueError ''Unknown collision shape type.''), [])
   \<and> \<not> local_error (result (create_collision_shape demo_engine 2 (1 / 2) [1, 1, 1] 1 None
        [1, 1, 1] [0, 0, 1] (- 1) None None) [])
   \<and> issued (create_collision_shape demo_engine 2 (1 / 2) [1, 1, 1] 1 None [1, 1, 1] [0, 0, 1]
        (- 1) None None) [] =
       [Call ''createCollisionShape'' [PInt 2] [(''radius'', PFloat (1 / 2))]]"
proof -
  have r2: "recognized_shape 2" and r9: "\<not> recognized_shape 9"
    by (simp_all add: recognized_shape_def GEOM_defs)
  note bad = shape_creation_validates_kind [where shape_type = 9 and eng = demo_engine
      and radius = "1 / 2" and half_extents = "[1, 1, 1]" and height = 1 and filename = None
      and mesh_scale = "[1, 1, 1]" and plane_normal = "[0, 0, 1]" and flags = "- 1"
      and collision_frame_position = None and collision_frame_orientation = None and tr = "[]"]
  note good = shape_creation_validates_kind [where shape_type = 2 and eng = demo_engine
      and radius = "1 / 2" and half_extents = "[1, 1, 1]" and height = 1 and filename = None
      and mesh_scale = "[1, 1, 1]" and plane_normal = "[0, 0, 1]" and flags = "- 1"
      and collision_frame_position = None and collision_frame_orientation = None and tr = "[]"]
  from bad r9 have a: "create_collision_shape demo_engine 9 (1 / 2) [1, 1, 1] 1 None [1, 1, 1]
        [0, 0, 1] (- 1) None None [] = (Inl (ValueError ''Unknown collision shape type.''), [])"
    by blast
  from good r2 have b: "\<not> local_error (result (create_collision_shape demo_engine 2 (1 / 2)
        [1, 1, 1] 1 None [1, 1, 1] [0, 0, 1] (- 1) None None) [])"
    by blast
  have c: "issued (create_collision_shape demo_engine 2 (1 / 2) [1, 1, 1] 1 None [1, 1, 1]
        [0, 0, 1] (- 1) None None) [] =
       [Call ''createCollisionShape'' [PInt 2] [(''radius'', PFloat (1 / 2))]]"
    by (simp add: create_collision_shape_def issued_def Let_def put_def GEOM_defs)
  from r2 r9 a b c show ?thesis by blast
qed


section \<open>Claim C7: orientation reordering round trip\<close>

text \<open>
  Claim C7. Reordering the four components of a scalar-first orientation into the
  engine's scalar-last order and back gives the original components, and
  \<open>load_urdf\<close> and \<open>create_body\<close> forward a structured quaternion
  \<open>(w, x, y, z)\<close> to the engine as the list \<open>[x, y, z, w]\<close>.
\<close>

theorem orientation_reorder_round_trip:
  "convertFrom (w, x, y, z) = [x, y, z, w]
   \<and> convertTo (convertFrom (w, x, y, z)) = Some (w, x, y, z)
   \<and> issued (load_urdf eng filename position (PQuat w x y z) use_maximal_coordinates
        use_fixed_base flags scale) tr =
       [Call ''loadURDF''
          [PStr filename, if is_arr position then ravel_tolist position else position,
           vec [x, y, z, w], PInt use_maximal_coordinates, int_of_bool use_fixed_base,
           PInt flags, PFloat scale] []]
   \<and> issued (create_body eng visual_shape_id collision_shape_id mass position (PQuat w x y z)) tr =
       [Call ''createMultiBody'' []
          [(''baseMass'', mass), (''baseCollisionShapeIndex'', PInt collision_shape_id),
           (''baseVisualShapeIndex'', PInt visual_shape_id),
           (''basePosition'', if is_arr position then ravel_tolist position else position),
           (''baseOrientation'', vec [x, y, z, w])]]"
  by (cases position)
     (simp_all add: convertFrom_def convertTo_def load_urdf_def create_body_def issued_def Let_def)

theorem orientation_reorder_round_trip_witness:
  "convertFrom (1, 0, 0, 0) = [0, 0, 0, 1]
   \<and> convertTo (convertFrom (1, 0, 0, 0)) = Some (1, 0, 0, 0)
   \<and> issued (load_urdf demo_engine ''robot.urdf'' (vec [0, 0, 1]) (PQuat 1 0 0 0) 0 False 0 1) [] =
       [Call ''loadURDF''
          [PStr ''robot.urdf'', vec [0, 0, 1], vec [0, 0, 0, 1], PInt 0, PInt 0, PInt 0,
           PFloat 1] []]"
proof -
  have a: "convertFrom (1, 0, 0, 0) = [0, 0, 0, 1]"
    by (rule orientation_reorder_round_trip [THEN conjunct1])
  have b: "convertTo (convertFrom (1, 0, 0, 0)) = Some (1, 0, 0, 0)"
    by (rule orientation_reorder_round_trip [THEN conjunct2, THEN conjunct1])
  have "issued (load_urdf demo_engine ''robot.urdf'' (vec [0, 0, 1]) (PQuat 1 0 0 0) 0 False 0 1) [] =
       [Call ''loadURDF''
          [PStr ''robot.urdf'',
           if is_arr (vec [0, 0, 1]) then ravel_tolist (vec [0, 0, 1]) else vec [0, 0, 1],
           vec [0, 0, 0, 1], PInt 0, int_of_bool False, PInt 0, PFloat 1] []]"
    by (rule orientation_reorder_round_trip [THEN conjunct2, THEN conjunct2, THEN conjunct1])
  with a b show ?thesis by (simp add: vec_def int_of_bool_def)
qed

section \<open>Claim C8: \<open>start_logging\<close> drops the logging id\<close>

text \<open>
  Claim C8. \<open>start_logging\<close> invokes \<open>startStateLogging\<close> once and, whatever id
  the engine answers, returns \<open>None\<close>; only an exception of the engine comes back.
\<close>

theorem start_logging_returns_None:
  "result (start_logging eng logging_type filename object_unique_ids max_log_dof body_unique_id_A
      body_unique_id_B link_index_A link_index_B device_type_filter log_flags) tr =
     (case eng tr (Call ''startStateLogging'' [PInt logging_type, PStr filename]
                    (start_logging_kwargs object_unique_ids max_log_dof body_unique_id_A
                       body_unique_id_B link_index_A link_index_B device_type_filter log_flags)) of
        Inl msg \<Rightarrow> Inl (EngineError msg)
      | Inr logging_id \<Rightarrow> Inr PNone)
   \<and> map call_name (issued (start_logging eng logging_type filename object_unique_ids max_log_dof
        body_unique_id_A body_unique_id_B link_index_A link_index_B device_type_filter log_flags) tr) =
     [''startStateLogging'']"
  by (simp add: start_logging_def result_def issued_def bnd_def sim_def ret_def split: sum.splits)

theorem start_logging_returns_None_witness:
  "demo_engine [] (Call ''startStateLogging'' [PInt 1, PStr ''log.bin''] [(''maxLogDof'', PInt 12)]) = Inr (PInt 7)
   \<and> result (start_logging demo_engine 1 ''log.bin'' None (Some 12) None None None None None None) [] = Inr PNone"
  using start_logging_returns_None [of demo_engine 1 "''log.bin''" None "Some 12" None None None None None None "[]"]
  by (simp add: demo_engine_def start_logging_kwargs_def put_def)

section \<open>Claim C9: \<open>load\<close> on a state that is neither int nor str\<close>

text \<open>
  Claim C9. When \<open>state\<close> is neither an int nor a str, \<open>load\<close> issues no engine
  call and raises nothing: it returns \<open>None\<close> and the trace of calls, hence the state
  of the engine, is unchanged.
\<close>

theorem load_ignores_other_state:
  "\<not> isinstance_int state \<Longrightarrow> \<not> isinstance_str state \<Longrightarrow> load eng state tr = (Inr PNone, tr)"
  by (simp add: load_def ret_def)

theorem load_ignores_other_state_witness:
  "load demo_engine (PFloat (5 / 2)) [] = (Inr PNone, [])
   \<and> load demo_engine PNone [] = (Inr PNone, [])
   \<and> issued (load demo_engine (PInt 3)) [] = [Call ''restoreState'' [] [(''stateId'', PInt 3)]]"
proof -
  have a: "load demo_engine (PFloat (5 / 2)) [] = (Inr PNone, [])"
    using load_ignores_other_state [of "PFloat (5 / 2)" demo_engine "[]"] by simp
  have b: "load demo_engine PNone [] = (Inr PNone, [])"
    using load_ignores_other_state [of PNone demo_engine "[]"] by simp
  have c: "issued (load demo_engine (PInt 3)) [] = [Call ''restoreState'' [] [(''stateId'', PInt 3)]]"
    by (simp add: load_def issued_def bnd_def sim_def ret_def demo_engine_def)
  from a b c show ?thesis by simp
qed


section \<open>Claim C10: link identifier \<open>-1\<close> is the base\<close>





end
